theory Spec2Isabelle
  imports Complex_Main "HOL-Library.Sublist" "HOL-Library.AList"
begin

section \<open>Python values\<close>

text \<open>
  The orchestrator passes provider results and the synthesised profile around as
  untyped dictionaries. A value is what \<^verbatim>\<open>json.loads\<close> and the worker result
  literals can produce. A dictionary is an association list read with \<open>map_of\<close>;
  its keys are strings. Strings are byte strings (UTF-8); a float is its rational
  value (NaN and the infinities are not represented). \<open>PException msg\<close> is an
  exception object with \<^verbatim>\<open>str(e) = msg\<close>: the fan-out can leave one in the dataset.
\<close>

datatype pyval =
    PNone
  | PBool bool
  | PInt int
  | PFloat rat
  | PStr string
  | PList "pyval list"
  | PDict "(string \<times> pyval) list"
  | PException string

text \<open>The built-in exceptions the modelled code can raise.\<close>

datatype py_exn = AttributeError | TypeError | KeyError | IndexError | ValueError

text \<open>
  What the Python runtime and its libraries supply beyond the modelled fragment is a
  parameter of the model: \<^verbatim>\<open>str(v)\<close> of a value that is not a string;
  \<^verbatim>\<open>json.loads\<close> (\<open>Inl msg\<close> is a JSONDecodeError whose text is \<open>msg\<close>); the
  text \<^verbatim>\<open>str(e)\<close> of a built-in exception; \<^verbatim>\<open>str.lower\<close> on a string that has
  non-ASCII characters (the Unicode case mapping), and likewise \<^verbatim>\<open>str.strip\<close>
  (Unicode white space); and whether \<^verbatim>\<open>urllib.parse\<close> accepts a network location
  that holds a bracketed host or non-ASCII characters (the library parses the bracketed
  text as an IPv6 or IPvFuture address and refuses some characters after normalisation;
  when it refuses, it raises ValueError).
\<close>

record runtime =
  str_of :: "pyval \<Rightarrow> string"
  loads :: "string \<Rightarrow> string + pyval"
  exn_text :: "py_exn \<Rightarrow> string"
  unicode_lower :: "string \<Rightarrow> string"
  unicode_strip :: "string \<Rightarrow> string"
  netloc_accepted :: "string \<Rightarrow> bool"

definition bind_exn :: "'e + 'a \<Rightarrow> ('a \<Rightarrow> 'e + 'b) \<Rightarrow> 'e + 'b" where
  "bind_exn m f = (case m of Inl e \<Rightarrow> Inl e | Inr x \<Rightarrow> f x)"

text \<open>\<^verbatim>\<open>bool(v)\<close>: the truth value Python's \<^verbatim>\<open>if v:\<close> tests.\<close>

fun truthy :: "pyval \<Rightarrow> bool" where
  "truthy PNone = False"
| "truthy (PBool b) = b"
| "truthy (PInt i) = (i \<noteq> 0)"
| "truthy (PFloat r) = (r \<noteq> 0)"
| "truthy (PStr s) = (s \<noteq> [])"
| "truthy (PList xs) = (xs \<noteq> [])"
| "truthy (PDict kvs) = (kvs \<noteq> [])"
| "truthy (PException msg) = True"

text \<open>\<^verbatim>\<open>d.get(k, default)\<close>: only a dictionary has the method.\<close>

fun py_get :: "pyval \<Rightarrow> string \<Rightarrow> pyval \<Rightarrow> py_exn + pyval" where
  "py_get (PDict kvs) k dflt = Inr (case map_of kvs k of Some v \<Rightarrow> v | None \<Rightarrow> dflt)"
| "py_get _ k dflt = Inl AttributeError"

text \<open>\<^verbatim>\<open>d[k]\<close> with a string key \<open>k\<close>.\<close>

fun py_index :: "pyval \<Rightarrow> string \<Rightarrow> py_exn + pyval" where
  "py_index (PDict kvs) k = (case map_of kvs k of Some v \<Rightarrow> Inr v | None \<Rightarrow> Inl KeyError)"
| "py_index _ k = Inl TypeError"

text \<open>\<^verbatim>\<open>v > 0\<close>: defined on numbers (a bool is an int), a TypeError elsewhere.\<close>

fun py_gt0 :: "pyval \<Rightarrow> py_exn + bool" where
  "py_gt0 (PInt i) = Inr (0 < i)"
| "py_gt0 (PBool b) = Inr b"
| "py_gt0 (PFloat r) = Inr (0 < r)"
| "py_gt0 _ = Inl TypeError"

section \<open>Sufficiency scorer: \<^verbatim>\<open>check_data_sufficiency\<close>\<close>

text \<open>
  The function keeps two locals, \<^verbatim>\<open>available_sources\<close> and
  \<^verbatim>\<open>critical_sources\<close>, and runs five blocks over them in sequence.
\<close>

type_synonym tally = "string list \<times> int"

definition score_site_scraper :: "pyval \<Rightarrow> tally \<Rightarrow> py_exn + tally" where
  "score_site_scraper worker_data t =
     bind_exn (py_get worker_data ''site_scraper'' (PDict [])) (\<lambda>site.
     bind_exn (py_get site ''success'' PNone) (\<lambda>ok.
       if truthy ok then Inr (fst t @ [''Website Content''], snd t + 2) else Inr t))"

definition score_tech_detector :: "pyval \<Rightarrow> tally \<Rightarrow> py_exn + tally" where
  "score_tech_detector worker_data t =
     bind_exn (py_get worker_data ''tech_detector'' (PDict [])) (\<lambda>tech.
     bind_exn (py_get tech ''success'' PNone) (\<lambda>ok.
       if truthy ok then
         bind_exn (py_index worker_data ''tech_detector'') (\<lambda>tech'.
         bind_exn (py_get tech' ''detected'' (PList [])) (\<lambda>techs.
           if truthy techs then Inr (fst t @ [''Technology Stack''], snd t + 1) else Inr t))
       else Inr t))"

definition score_dns_mx :: "pyval \<Rightarrow> tally \<Rightarrow> py_exn + tally" where
  "score_dns_mx dns_data t =
     bind_exn (py_get dns_data ''dns'' (PDict [])) (\<lambda>dns.
     bind_exn (py_get dns ''mx_records'' PNone) (\<lambda>mx.
       if truthy mx then Inr (fst t @ [''DNS Records''], snd t + 1) else Inr t))"

definition score_whois_registrar :: "pyval \<Rightarrow> tally \<Rightarrow> py_exn + tally" where
  "score_whois_registrar dns_data t =
     bind_exn (py_get dns_data ''whois'' (PDict [])) (\<lambda>whois.
     bind_exn (py_get whois ''registrar'' PNone) (\<lambda>registrar.
       if truthy registrar then Inr (fst t @ [''Domain WHOIS''], snd t + 1) else Inr t))"

definition score_dns_whois :: "pyval \<Rightarrow> tally \<Rightarrow> py_exn + tally" where
  "score_dns_whois worker_data t =
     bind_exn (py_get worker_data ''dns_whois'' (PDict [])) (\<lambda>dns_data.
     bind_exn (py_get dns_data ''success'' PNone) (\<lambda>ok.
       if truthy ok then
         bind_exn (score_dns_mx dns_data t) (score_whois_registrar dns_data)
       else Inr t))"

definition score_google_business :: "pyval \<Rightarrow> tally \<Rightarrow> py_exn + tally" where
  "score_google_business worker_data t =
     bind_exn (py_get worker_data ''google_business'' (PDict [])) (\<lambda>google.
     bind_exn (py_get google ''success'' PNone) (\<lambda>ok.
       if truthy ok then
         bind_exn (py_index worker_data ''google_business'') (\<lambda>google'.
         bind_exn (py_get google' ''rating'' PNone) (\<lambda>rating.
           if truthy rating then Inr (fst t @ [''Google Business Profile''], snd t + 1)
           else Inr t))
       else Inr t))"

definition score_job_scanner :: "pyval \<Rightarrow> tally \<Rightarrow> py_exn + tally" where
  "score_job_scanner worker_data t =
     bind_exn (py_get worker_data ''job_scanner'' (PDict [])) (\<lambda>jobs.
     bind_exn (py_get jobs ''success'' PNone) (\<lambda>ok.
       if truthy ok then
         bind_exn (py_index worker_data ''job_scanner'') (\<lambda>jobs'.
         bind_exn (py_get jobs' ''total_positions'' (PInt 0)) (\<lambda>total.
         bind_exn (py_gt0 total) (\<lambda>positive.
           if positive then Inr (fst t @ [''Job Postings''], snd t) else Inr t)))
       else Inr t))"

definition check_data_sufficiency :: "pyval \<Rightarrow> py_exn + (bool \<times> string list)" where
  "check_data_sufficiency worker_data =
     bind_exn (score_site_scraper worker_data ([], 0)) (\<lambda>t1.
     bind_exn (score_tech_detector worker_data t1) (\<lambda>t2.
     bind_exn (score_dns_whois worker_data t2) (\<lambda>t3.
     bind_exn (score_google_business worker_data t3) (\<lambda>t4.
     bind_exn (score_job_scanner worker_data t4) (\<lambda>t5.
       Inr (3 \<le> snd t5, fst t5))))))"

subsection \<open>The weight table, as the specification words it\<close>

text \<open>
  A signal is read off the dataset by a path of keys; a missing key, or a step
  through something that is not a dictionary, reads as \<open>PNone\<close>.
\<close>

fun lookup_path :: "pyval \<Rightarrow> string list \<Rightarrow> pyval" where
  "lookup_path v [] = v"
| "lookup_path (PDict kvs) (k # ks) =
     (case map_of kvs k of Some v \<Rightarrow> lookup_path v ks | None \<Rightarrow> PNone)"
| "lookup_path _ (k # ks) = PNone"

definition provider_succeeded :: "pyval \<Rightarrow> string \<Rightarrow> bool" where
  "provider_succeeded ds name = truthy (lookup_path ds [name, ''success''])"

definition has_site_content :: "pyval \<Rightarrow> bool" where
  "has_site_content ds = provider_succeeded ds ''site_scraper''"

definition has_technologies :: "pyval \<Rightarrow> bool" where
  "has_technologies ds =
     (provider_succeeded ds ''tech_detector'' \<and>
      truthy (lookup_path ds [''tech_detector'', ''detected'']))"

definition has_mx_records :: "pyval \<Rightarrow> bool" where
  "has_mx_records ds =
     (provider_succeeded ds ''dns_whois'' \<and>
      truthy (lookup_path ds [''dns_whois'', ''dns'', ''mx_records'']))"

definition has_registrar :: "pyval \<Rightarrow> bool" where
  "has_registrar ds =
     (provider_succeeded ds ''dns_whois'' \<and>
      truthy (lookup_path ds [''dns_whois'', ''whois'', ''registrar'']))"

definition has_rating :: "pyval \<Rightarrow> bool" where
  "has_rating ds =
     (provider_succeeded ds ''google_business'' \<and>
      truthy (lookup_path ds [''google_business'', ''rating'']))"

fun positive_number :: "pyval \<Rightarrow> bool" where
  "positive_number (PInt i) = (0 < i)"
| "positive_number (PBool b) = b"
| "positive_number (PFloat r) = (0 < r)"
| "positive_number _ = False"

definition has_job_postings :: "pyval \<Rightarrow> bool" where
  "has_job_postings ds =
     (provider_succeeded ds ''job_scanner'' \<and>
      positive_number (lookup_path ds [''job_scanner'', ''total_positions'']))"

definition signal_weight :: "pyval \<Rightarrow> int" where
  "signal_weight ds =
     (if has_site_content ds then 2 else 0) +
     (if has_technologies ds then 1 else 0) +
     (if has_mx_records ds then 1 else 0) +
     (if has_registrar ds then 1 else 0) +
     (if has_rating ds then 1 else 0) +
     (if has_job_postings ds then 0 else 0)"

definition signal_sources :: "pyval \<Rightarrow> string list" where
  "signal_sources ds =
     (if has_site_content ds then [''Website Content''] else []) @
     (if has_technologies ds then [''Technology Stack''] else []) @
     (if has_mx_records ds then [''DNS Records''] else []) @
     (if has_registrar ds then [''Domain WHOIS''] else []) @
     (if has_rating ds then [''Google Business Profile''] else []) @
     (if has_job_postings ds then [''Job Postings''] else [])"

text \<open>
  The shape every dataset built by the fan-out from the five workers has: the five
  entries are dictionaries, \<^verbatim>\<open>dns\<close> and \<^verbatim>\<open>whois\<close> (where present) are
  dictionaries, and \<^verbatim>\<open>total_positions\<close> (where present) is a number.
\<close>

fun is_dict :: "pyval \<Rightarrow> bool" where
  "is_dict (PDict kvs) = True"
| "is_dict _ = False"

fun is_number_or_absent :: "pyval option \<Rightarrow> bool" where
  "is_number_or_absent None = True"
| "is_number_or_absent (Some (PInt i)) = True"
| "is_number_or_absent (Some (PBool b)) = True"
| "is_number_or_absent (Some (PFloat r)) = True"
| "is_number_or_absent (Some _) = False"

fun is_dict_or_absent :: "pyval option \<Rightarrow> bool" where
  "is_dict_or_absent None = True"
| "is_dict_or_absent (Some v) = is_dict v"

fun entry_field :: "pyval \<Rightarrow> string \<Rightarrow> pyval option" where
  "entry_field (PDict kvs) k = map_of kvs k"
| "entry_field _ k = None"

definition dataset_shape :: "pyval \<Rightarrow> bool" where
  "dataset_shape ds =
     (is_dict ds \<and>
      list_all (\<lambda>name. case entry_field ds name of Some e \<Rightarrow> is_dict e | None \<Rightarrow> False)
        [''site_scraper'', ''tech_detector'', ''dns_whois'', ''google_business'', ''job_scanner''] \<and>
      is_dict_or_absent (entry_field (lookup_path ds [''dns_whois'']) ''dns'') \<and>
      is_dict_or_absent (entry_field (lookup_path ds [''dns_whois'']) ''whois'') \<and>
      is_number_or_absent (entry_field (lookup_path ds [''job_scanner'']) ''total_positions''))"

text \<open>The part of that shape that is up to one provider's result.\<close>

definition result_shape :: "pyval \<Rightarrow> bool" where
  "result_shape v =
     (is_dict v \<and> is_dict_or_absent (entry_field v ''dns'')
      \<and> is_dict_or_absent (entry_field v ''whois'')
      \<and> is_number_or_absent (entry_field v ''total_positions''))"

text \<open>
  A dataset in which only the site scraper reports anything: the page was fetched,
  no technology matched, the domain has no MX record and no registrar on file, the
  business listing was not found and the job search is not configured.
\<close>

definition site_only_dataset :: pyval where
  "site_only_dataset = PDict
     [(''site_scraper'', PDict [(''source'', PStr ''site_scraper''), (''success'', PBool True),
         (''title'', PStr ''Acme''), (''error'', PNone)]),
      (''tech_detector'', PDict [(''source'', PStr ''tech_detector''), (''success'', PBool True),
         (''detected'', PList []), (''error'', PNone)]),
      (''dns_whois'', PDict [(''source'', PStr ''dns_whois''), (''success'', PBool True),
         (''dns'', PDict [(''mx_records'', PList []), (''email_provider'', PNone)]),
         (''whois'', PDict [(''registrar'', PNone)]), (''error'', PNone)]),
      (''google_business'', PDict [(''source'', PStr ''google_business''),
         (''success'', PBool False), (''rating'', PNone),
         (''error'', PStr ''No results found: ZERO_RESULTS'')]),
      (''job_scanner'', PDict [(''source'', PStr ''job_scanner''), (''success'', PBool False),
         (''total_positions'', PInt 0),
         (''error'', PStr ''SerpAPI key not configured - skipping job scan'')])]"

text \<open>A dataset with technologies, MX records and job postings but no page content.\<close>

definition sample_dataset :: pyval where
  "sample_dataset = PDict
     [(''site_scraper'', PDict [(''success'', PBool False),
         (''error'', PStr ''Timeout - site took too long to respond'')]),
      (''tech_detector'', PDict [(''success'', PBool True),
         (''detected'', PList [PDict [(''name'', PStr ''WordPress''), (''confidence'', PInt 50)]])]),
      (''dns_whois'', PDict [(''success'', PBool True),
         (''dns'', PDict [(''mx_records'', PList [PStr ''aspmx.l.google.com''])]),
         (''whois'', PDict [(''registrar'', PStr ''NameCheap, Inc.'')])]),
      (''google_business'', PDict [(''success'', PBool True), (''rating'', PFloat (9 / 2))]),
      (''job_scanner'', PDict [(''success'', PBool True), (''total_positions'', PInt 4)])]"

section \<open>Strings\<close>

text \<open>
  The string methods the orchestrator calls. On an ASCII string \<^verbatim>\<open>str.lower\<close>
  maps \<^verbatim>\<open>A\<close>..\<^verbatim>\<open>Z\<close> to \<^verbatim>\<open>a\<close>..\<^verbatim>\<open>z\<close>; on any other string it is
  the runtime's Unicode mapping.
\<close>

definition is_ascii :: "char \<Rightarrow> bool" where
  "is_ascii c = ((of_char c :: nat) < 128)"

definition lower_char :: "char \<Rightarrow> char" where
  "lower_char c =
     (let n = (of_char c :: nat) in if 65 \<le> n \<and> n \<le> 90 then char_of (n + 32) else c)"

definition lower :: "runtime \<Rightarrow> string \<Rightarrow> string" where
  "lower rt s = (if list_all is_ascii s then map lower_char s else unicode_lower rt s)"

text \<open>\<^verbatim>\<open>s.rstrip("/")\<close>.\<close>

definition rstrip_slash :: "string \<Rightarrow> string" where
  "rstrip_slash s = rev (dropWhile (\<lambda>c. c = CHR ''/'') (rev s))"

text \<open>\<^verbatim>\<open>sub in s\<close> on strings is the test for a contiguous substring.\<close>

definition contains :: "string \<Rightarrow> string \<Rightarrow> bool" where
  "contains sub s = sublist sub s"

text \<open>
  \<^verbatim>\<open>s.split(sep)\<close>: the pieces between the occurrences of \<open>sep\<close>, found from
  the left without overlap; an empty separator is a ValueError.
\<close>

function split_from :: "string \<Rightarrow> string \<Rightarrow> string \<Rightarrow> string list" where
  "split_from sep acc [] = [rev acc]"
| "split_from sep acc (c # cs) =
     (if sep \<noteq> [] \<and> prefix sep (c # cs)
      then rev acc # split_from sep [] (drop (length sep - 1) cs)
      else split_from sep (c # acc) cs)"
  by pat_completeness auto
termination
  by (relation "measure (\<lambda>(sep, acc, s). length s)") auto

definition py_split :: "string \<Rightarrow> string \<Rightarrow> py_exn + string list" where
  "py_split s sep = (if sep = [] then Inl ValueError else Inr (split_from sep [] s))"

text \<open>\<^verbatim>\<open>xs[i]\<close> for \<open>i \<ge> 0\<close>.\<close>

definition py_nth :: "'a list \<Rightarrow> nat \<Rightarrow> py_exn + 'a" where
  "py_nth xs i = (if i < length xs then Inr (xs ! i) else Inl IndexError)"

section \<open>Domain validator\<close>

definition normalize_url :: "string \<Rightarrow> string" where
  "normalize_url url =
     rstrip_slash (if prefix ''http://'' url \<or> prefix ''https://'' url then url
                   else ''https://'' @ url)"

text \<open>
  \<^verbatim>\<open>urlparse(u).netloc\<close> of the standard library (\<^verbatim>\<open>urllib.parse.urlsplit\<close>):
  leading control characters and spaces are stripped and tab, CR and LF removed; a
  leading scheme (a letter, then letters, digits, \<^verbatim>\<open>+\<close>, \<^verbatim>\<open>-\<close>, \<^verbatim>\<open>.\<close>, up
  to the first colon) is split off; if what follows starts with \<^verbatim>\<open>//\<close>, the
  network location runs up to the first \<^verbatim>\<open>/\<close>, \<^verbatim>\<open>?\<close> or \<^verbatim>\<open>#\<close>. An
  unmatched square bracket in it raises ValueError ("Invalid IPv6 URL"). With both
  brackets present the text between the first \<^verbatim>\<open>[\<close> and the next \<^verbatim>\<open>]\<close> has to
  be an address: text that neither starts with \<^verbatim>\<open>v\<close> (IPvFuture) nor holds a colon
  (IPv6) is none, as in \<^verbatim>\<open>[abc]\<close> or \<^verbatim>\<open>[1.2.3.4]\<close>, and raises ValueError; for
  any other bracketed text, and for a network location with a non-ASCII character, the
  library's parsers decide, and a refusal raises ValueError as well. A network location
  of ASCII characters without brackets is returned.
\<close>

definition bracketed_host :: "string \<Rightarrow> string" where
  "bracketed_host netloc =
     takeWhile (\<lambda>c. c \<noteq> CHR '']'') (drop 1 (dropWhile (\<lambda>c. c \<noteq> CHR ''['') netloc))"

definition not_an_address :: "string \<Rightarrow> bool" where
  "not_an_address host = (\<not> prefix ''v'' host \<and> CHR '':'' \<notin> set host)"

definition is_ascii_alpha :: "char \<Rightarrow> bool" where
  "is_ascii_alpha c =
     (let n = (of_char c :: nat) in (65 \<le> n \<and> n \<le> 90) \<or> (97 \<le> n \<and> n \<le> 122))"

definition is_scheme_char :: "char \<Rightarrow> bool" where
  "is_scheme_char c =
     (let n = (of_char c :: nat) in
        is_ascii_alpha c \<or> (48 \<le> n \<and> n \<le> 57) \<or> c \<in> set ''+-.'')"

definition strip_scheme :: "string \<Rightarrow> string" where
  "strip_scheme url =
     (let head = takeWhile (\<lambda>c. c \<noteq> CHR '':'') url in
        if length head < length url \<and> head \<noteq> [] \<and> is_ascii_alpha (hd head)
           \<and> list_all is_scheme_char head
        then drop (length head + 1) url
        else url)"

definition urlparse_netloc :: "runtime \<Rightarrow> string \<Rightarrow> py_exn + string" where
  "urlparse_netloc rt url0 =
     (let url1 = dropWhile (\<lambda>c. (of_char c :: nat) \<le> 32) url0;
          url2 = filter (\<lambda>c. (of_char c :: nat) \<notin> {9, 10, 13}) url1;
          rest = strip_scheme url2
      in if take 2 rest = ''//'' then
           (let netloc = takeWhile (\<lambda>c. c \<notin> set ''/?#'') (drop 2 rest) in
              if (CHR ''['' \<in> set netloc \<and> CHR '']'' \<notin> set netloc)
                 \<or> (CHR '']'' \<in> set netloc \<and> CHR ''['' \<notin> set netloc)
              then Inl ValueError
              else if CHR ''['' \<in> set netloc \<and> CHR '']'' \<in> set netloc
                      \<and> not_an_address (bracketed_host netloc)
              then Inl ValueError
              else if ((CHR ''['' \<in> set netloc \<and> CHR '']'' \<in> set netloc)
                       \<or> \<not> list_all is_ascii netloc)
                      \<and> \<not> netloc_accepted rt netloc
              then Inl ValueError
              else Inr netloc)
         else Inr [])"

definition extract_domain :: "runtime \<Rightarrow> string \<Rightarrow> py_exn + string" where
  "extract_domain rt url =
     bind_exn (urlparse_netloc rt (normalize_url url)) (\<lambda>netloc.
       let domain = lower rt netloc in
         Inr (if prefix ''www.'' domain then drop 4 domain else domain))"

definition generic_providers :: "string list" where
  "generic_providers =
     [''gmail.com'', ''yahoo.com'', ''outlook.com'', ''hotmail.com'',
      ''aol.com'', ''icloud.com'', ''protonmail.com'', ''mail.com'']"

definition email_domain_of :: "runtime \<Rightarrow> string \<Rightarrow> py_exn + string" where
  "email_domain_of rt email =
     bind_exn (py_split email ''@'') (\<lambda>parts.
     bind_exn (py_nth parts 1) (\<lambda>d. Inr (lower rt d)))"

definition validate_email_domain ::
  "runtime \<Rightarrow> string \<Rightarrow> string \<Rightarrow> py_exn + (bool \<times> bool)" where
  "validate_email_domain rt email url =
     bind_exn (email_domain_of rt email) (\<lambda>email_domain.
     bind_exn (extract_domain rt url) (\<lambda>url_domain.
       if email_domain \<in> set generic_providers then Inr (True, True)
       else if email_domain = url_domain then Inr (True, False)
       else if suffix (''.'' @ url_domain) email_domain then Inr (True, False)
       else if suffix (''.'' @ email_domain) url_domain then Inr (True, False)
       else Inr (False, False)))"

subsection \<open>The validator's decision, as the specification words it\<close>

text \<open>
  A domain name is a sequence of labels separated by dots. One name is a strict
  subdomain of another when its labels end with the labels of the other and there are
  more of them.
\<close>

fun labels :: "string \<Rightarrow> string list" where
  "labels [] = [[]]"
| "labels (c # cs) =
     (if c = CHR ''.'' then [] # labels cs
      else (case labels cs of l # ls \<Rightarrow> (c # l) # ls | [] \<Rightarrow> [[c]]))"

definition strict_subdomain :: "string \<Rightarrow> string \<Rightarrow> bool" where
  "strict_subdomain d parent = strict_suffix (labels parent) (labels d)"

text \<open>The name that a sequence of labels spells.\<close>

fun join_labels :: "string list \<Rightarrow> string" where
  "join_labels [] = []"
| "join_labels [l] = l"
| "join_labels (l # l' # ls) = l @ ''.'' @ join_labels (l' # ls)"

text \<open>
  The normalized host of a plain host name (letters, digits, hyphens and dots):
  lower-cased, a leading \<^verbatim>\<open>www.\<close> removed.
\<close>

definition normalized_host :: "string \<Rightarrow> string" where
  "normalized_host h =
     (let d = map lower_char h in if prefix ''www.'' d then drop 4 d else d)"

definition domain_decision :: "string \<Rightarrow> string \<Rightarrow> bool \<times> bool" where
  "domain_decision email_domain url_domain =
     (if email_domain \<in> set generic_providers then (True, True)
      else if email_domain = url_domain \<or> strict_subdomain email_domain url_domain
              \<or> strict_subdomain url_domain email_domain then (True, False)
      else (False, False))"

text \<open>The characters of a plain host name: letters, digits, hyphen and dot.\<close>

definition host_char :: "char \<Rightarrow> bool" where
  "host_char c =
     (let n = (of_char c :: nat) in
        (48 \<le> n \<and> n \<le> 57) \<or> (65 \<le> n \<and> n \<le> 90) \<or> (97 \<le> n \<and> n \<le> 122)
        \<or> n = 45 \<or> n = 46)"

section \<open>Rate limiter\<close>

text \<open>
  The backing store is Redis, reached through the module-level \<^verbatim>\<open>redis_client\<close>,
  which is \<^verbatim>\<open>None\<close> when the connection could not be made at start-up. The code
  writes two families of keys, \<^verbatim>\<open>rate_limit:{ip}\<close> and
  \<^verbatim>\<open>profile_cache:{url}\<close>; their prefixes differ, so each family is a map of its
  own. A key holds its value and the time at which it expires; time is a clock reading
  in seconds, passed to each operation. A key whose expiry time has been reached is gone.
  The checks of one IP are taken one after another (two overlapping checks are not
  modelled).
\<close>

record redis_store =
  rate_limit :: "string \<Rightarrow> (int \<times> nat) option"
  profile_cache :: "string \<Rightarrow> (string \<times> nat) option"

definition live :: "nat \<Rightarrow> ('a \<times> nat) option \<Rightarrow> 'a option" where
  "live now entry =
     (case entry of None \<Rightarrow> None
      | Some (v, expires_at) \<Rightarrow> if now < expires_at then Some v else None)"

text \<open>
  A call to the store may fail (connection lost, timeout). Which call of a check
  fails, if any, is an input of the model. A failed \<^verbatim>\<open>execute\<close> leaves the
  store as it was.
\<close>

datatype redis_fault = NoFault | GetFails | ExecuteFails

datatype redis_error = RedisError

definition redis_get_count :: "redis_store \<Rightarrow> redis_fault \<Rightarrow> nat \<Rightarrow> string \<Rightarrow> redis_error + int option" where
  "redis_get_count r fault now ip =
     (if fault = GetFails then Inl RedisError else Inr (live now (rate_limit r ip)))"

text \<open>
  The pipeline \<^verbatim>\<open>INCR key; EXPIRE key 3600\<close>, executed as one transaction:
  \<^verbatim>\<open>INCR\<close> of a missing key sets it to 1.
\<close>

definition redis_incr_expire :: "redis_store \<Rightarrow> redis_fault \<Rightarrow> nat \<Rightarrow> string \<Rightarrow> nat \<Rightarrow> redis_error + redis_store" where
  "redis_incr_expire r fault now ip ttl =
     (if fault = ExecuteFails then Inl RedisError
      else Inr (r\<lparr>rate_limit := (rate_limit r)
                  (ip \<mapsto> ((case live now (rate_limit r ip) of None \<Rightarrow> 1 | Some c \<Rightarrow> c + 1),
                         now + ttl))\<rparr>))"

text \<open>
  \<^verbatim>\<open>check_rate_limit(ip)\<close>. \<^verbatim>\<open>count\<close> is the stored decimal string, so
  \<^verbatim>\<open>count and int(count) >= 10\<close> holds exactly when the key is there and its
  number is at least 10. The body of the \<^verbatim>\<open>try\<close> either raises or returns the
  answer and the store afterwards; the handler turns every raise into \<^verbatim>\<open>True\<close>.
\<close>

definition rate_limit_try ::
  "redis_store \<Rightarrow> redis_fault \<Rightarrow> nat \<Rightarrow> string \<Rightarrow> redis_error + (bool \<times> redis_store)" where
  "rate_limit_try r fault now ip =
     bind_exn (redis_get_count r fault now ip) (\<lambda>count.
       if (case count of None \<Rightarrow> False | Some c \<Rightarrow> 10 \<le> c) then Inr (False, r)
       else bind_exn (redis_incr_expire r fault now ip 3600) (\<lambda>r'. Inr (True, r')))"

definition check_rate_limit ::
  "redis_store option \<Rightarrow> redis_fault \<Rightarrow> nat \<Rightarrow> string \<Rightarrow> bool \<times> redis_store option" where
  "check_rate_limit redis_client fault now ip =
     (case redis_client of
        None \<Rightarrow> (True, None)
      | Some r \<Rightarrow>
          (case rate_limit_try r fault now ip of
             Inl err \<Rightarrow> (True, Some r)
           | Inr (ok, r') \<Rightarrow> (ok, Some r')))"

text \<open>A run of checks from one IP at the given times, with a working store.\<close>

fun run_checks :: "redis_store \<Rightarrow> string \<Rightarrow> nat list \<Rightarrow> bool list \<times> redis_store" where
  "run_checks r ip [] = ([], r)"
| "run_checks r ip (t # ts) =
     (case check_rate_limit (Some r) NoFault t ip of
        (ok, Some r') \<Rightarrow> (case run_checks r' ip ts of (oks, r'') \<Rightarrow> (ok # oks, r''))
      | (ok, None) \<Rightarrow> (case run_checks r ip ts of (oks, r'') \<Rightarrow> (ok # oks, r'')))"

definition empty_store :: redis_store where
  "empty_store = \<lparr>rate_limit = (\<lambda>ip. None), profile_cache = (\<lambda>url. None)\<rparr>"

text \<open>A store in which one IP has made nine requests, the last at time 400.\<close>

definition nine_requests_store :: redis_store where
  "nine_requests_store =
     \<lparr>rate_limit = (\<lambda>ip. if ip = ''203.0.113.7'' then Some (9, 4000) else None),
      profile_cache = (\<lambda>url. None)\<rparr>"

definition ten_requests_store :: redis_store where
  "ten_requests_store =
     nine_requests_store\<lparr>rate_limit :=
       (rate_limit nine_requests_store)(''203.0.113.7'' \<mapsto> (10, 4600))\<rparr>"

section \<open>Profile synthesizer\<close>

subsection \<open>More of Python's operations on values\<close>

text \<open>\<^verbatim>\<open>==\<close> between values that can be keys of a set: numbers compare by value.\<close>

fun as_number :: "pyval \<Rightarrow> rat option" where
  "as_number (PBool b) = Some (if b then 1 else 0)"
| "as_number (PInt i) = Some (of_int i)"
| "as_number (PFloat r) = Some r"
| "as_number _ = None"

definition py_eq :: "pyval \<Rightarrow> pyval \<Rightarrow> bool" where
  "py_eq a b =
     (case (as_number a, as_number b) of
        (Some x, Some y) \<Rightarrow> x = y
      | (None, None) \<Rightarrow> a = b
      | _ \<Rightarrow> False)"

fun hashable :: "pyval \<Rightarrow> bool" where
  "hashable (PList xs) = False"
| "hashable (PDict kvs) = False"
| "hashable _ = True"

text \<open>The keys of a dictionary, each once, in the order of the association list.\<close>

fun keys_of :: "(string \<times> pyval) list \<Rightarrow> string list" where
  "keys_of [] = []"
| "keys_of ((k, v) # kvs) = k # filter (\<lambda>k'. k' \<noteq> k) (keys_of kvs)"

text \<open>\<^verbatim>\<open>for x in v\<close>: the elements of a list, the keys of a dictionary, the characters of a string.\<close>

fun py_iter :: "pyval \<Rightarrow> py_exn + pyval list" where
  "py_iter (PList xs) = Inr xs"
| "py_iter (PDict kvs) = Inr (map PStr (keys_of kvs))"
| "py_iter (PStr s) = Inr (map (\<lambda>c. PStr [c]) s)"
| "py_iter _ = Inl TypeError"

text \<open>\<^verbatim>\<open>s in v\<close> for a string \<open>s\<close>.\<close>

fun py_str_in :: "string \<Rightarrow> pyval \<Rightarrow> py_exn + bool" where
  "py_str_in s (PDict kvs) = Inr (map_of kvs s \<noteq> None)"
| "py_str_in s (PList xs) = Inr (PStr s \<in> set xs)"
| "py_str_in s (PStr t) = Inr (contains s t)"
| "py_str_in s _ = Inl TypeError"

text \<open>\<^verbatim>\<open>v.lower()\<close>: only a string has the method.\<close>

fun py_lower :: "runtime \<Rightarrow> pyval \<Rightarrow> py_exn + string" where
  "py_lower rt (PStr s) = Inr (lower rt s)"
| "py_lower rt _ = Inl AttributeError"

text \<open>\<^verbatim>\<open>d[k] = v\<close> with a string key.\<close>

fun py_setitem :: "pyval \<Rightarrow> string \<Rightarrow> pyval \<Rightarrow> py_exn + pyval" where
  "py_setitem (PDict kvs) k v = Inr (PDict (AList.update k v kvs))"
| "py_setitem _ k v = Inl TypeError"

text \<open>
  \<^verbatim>\<open>str(v)\<close>, also what \<^verbatim>\<open>f"{v}"\<close> inserts: a string stands for itself, an
  exception for its text.
\<close>

fun py_str :: "runtime \<Rightarrow> pyval \<Rightarrow> string" where
  "py_str rt (PStr s) = s"
| "py_str rt (PException msg) = msg"
| "py_str rt v = str_of rt v"

text \<open>
  \<^verbatim>\<open>s.strip()\<close>: on an ASCII string, ASCII white space removed at both ends; on any
  other string, the runtime's stripping of Unicode white space.
\<close>

definition is_space :: "char \<Rightarrow> bool" where
  "is_space c = ((of_char c :: nat) \<in> {9, 10, 11, 12, 13, 28, 29, 30, 31, 32})"

definition strip :: "runtime \<Rightarrow> string \<Rightarrow> string" where
  "strip rt s =
     (if list_all is_ascii s then rev (dropWhile is_space (rev (dropWhile is_space s)))
      else unicode_strip rt s)"

subsection \<open>\<^verbatim>\<open>validate_profile\<close>\<close>

text \<open>\<^verbatim>\<open>{t["name"] for t in detected}\<close>, as the list of its elements.\<close>

fun tech_names :: "pyval list \<Rightarrow> py_exn + pyval list" where
  "tech_names [] = Inr []"
| "tech_names (t # ts) =
     bind_exn (py_index t ''name'') (\<lambda>name.
       if \<not> hashable name then Inl TypeError
       else bind_exn (tech_names ts) (\<lambda>names. Inr (name # names)))"

text \<open>The loop over \<^verbatim>\<open>detected_techs\<close>; \<^verbatim>\<open>tech not in valid_techs\<close> hashes \<open>tech\<close>.\<close>

fun check_techs :: "runtime \<Rightarrow> pyval list \<Rightarrow> pyval list \<Rightarrow> string list \<Rightarrow> py_exn + string list" where
  "check_techs rt valid_techs [] issues = Inr issues"
| "check_techs rt valid_techs (tech # techs) issues =
     (if \<not> hashable tech then Inl TypeError
      else if \<not> list_ex (py_eq tech) valid_techs
      then check_techs rt valid_techs techs
             (issues @ [''Technology '' @ [CHR 0x27] @ py_str rt tech @ [CHR 0x27]
                         @ '' not found in detector output''])
      else check_techs rt valid_techs techs issues)"

definition check_technologies :: "runtime \<Rightarrow> pyval \<Rightarrow> pyval \<Rightarrow> string list \<Rightarrow> py_exn + string list" where
  "check_technologies rt profile worker_data issues =
     bind_exn (py_str_in ''operational_snapshot'' profile) (\<lambda>present.
       if present then
         bind_exn (py_index profile ''operational_snapshot'') (\<lambda>snapshot.
         bind_exn (py_get snapshot ''detected_technologies'' (PList [])) (\<lambda>detected_techs.
         bind_exn (py_get worker_data ''tech_detector'' (PDict [])) (\<lambda>tech_data.
         bind_exn (py_get tech_data ''success'' PNone) (\<lambda>ok.
           if truthy ok then
             bind_exn (py_get tech_data ''detected'' (PList [])) (\<lambda>detected.
             bind_exn (py_iter detected) (\<lambda>ts.
             bind_exn (tech_names ts) (\<lambda>valid_techs.
             bind_exn (py_iter detected_techs) (\<lambda>techs.
               check_techs rt valid_techs techs issues))))
           else Inr issues))))
       else Inr issues)"

definition check_reputation :: "runtime \<Rightarrow> pyval \<Rightarrow> pyval \<Rightarrow> string list \<Rightarrow> py_exn + string list" where
  "check_reputation rt profile worker_data issues =
     bind_exn (py_str_in ''market_position'' profile) (\<lambda>present.
       if present then
         bind_exn (py_index profile ''market_position'') (\<lambda>market.
         bind_exn (py_get market ''public_reputation'' (PStr [])) (\<lambda>reputation.
         bind_exn (py_get worker_data ''google_business'' (PDict [])) (\<lambda>google_data.
         bind_exn (py_get google_data ''success'' PNone) (\<lambda>ok.
           if truthy ok then
             bind_exn (py_get google_data ''rating'' PNone) (\<lambda>rating.
               if truthy rating then
                 bind_exn (py_index google_data ''rating'') (\<lambda>rating'.
                 bind_exn (py_str_in (py_str rt rating') reputation) (\<lambda>found.
                   if \<not> found then bind_exn (py_lower rt reputation) (\<lambda>low. Inr issues)
                   else Inr issues))
               else Inr issues)
           else
             bind_exn (py_lower rt reputation) (\<lambda>low.
               if contains ''stars'' low \<or> contains ''rating'' low then
                 (if \<not> contains ''no data'' low \<and> \<not> contains ''unavailable'' low
                  then Inr (issues @
                    [''Profile claims review data but Google Business data was unavailable''])
                  else Inr issues)
               else Inr issues)))))
       else Inr issues)"

definition validate_profile :: "runtime \<Rightarrow> pyval \<Rightarrow> pyval \<Rightarrow> py_exn + (bool \<times> string list)" where
  "validate_profile rt profile worker_data =
     bind_exn (check_technologies rt profile worker_data []) (\<lambda>issues1.
     bind_exn (check_reputation rt profile worker_data issues1) (\<lambda>issues.
       Inr (issues = [], issues)))"

subsection \<open>\<^verbatim>\<open>generate_profile\<close>\<close>

text \<open>
  One pass through the \<^verbatim>\<open>try\<close> block either returns the profile or raises; the
  handlers tell four classes of exception apart, each with its text \<^verbatim>\<open>str(e)\<close>.
\<close>

datatype raised = RateLimitError | APIError string | JSONDecodeError string | OtherError string

text \<open>
  The upstream API is the environment: what \<^verbatim>\<open>client.messages.create\<close> does on
  the call number \<open>n\<close> (from 0) is given by a function. A reply is a list of content
  blocks, of which the code reads \<^verbatim>\<open>content[0].text\<close>.
\<close>

datatype content_block = TextBlock string | OtherBlock

datatype api_outcome = ApiRaises raised | ApiReturns "content_block list"

definition first_text :: "runtime \<Rightarrow> content_block list \<Rightarrow> raised + string" where
  "first_text rt content =
     (case content of
        [] \<Rightarrow> Inl (OtherError (exn_text rt IndexError))
      | OtherBlock # _ \<Rightarrow> Inl (OtherError (exn_text rt AttributeError))
      | TextBlock response_text # _ \<Rightarrow> Inr response_text)"

text \<open>The JSON text inside an optional fenced code block.\<close>

definition fenced :: "string \<Rightarrow> string \<Rightarrow> py_exn + string" where
  "fenced response_text fence =
     bind_exn (py_split response_text fence) (\<lambda>parts.
     bind_exn (py_nth parts 1) (\<lambda>inner.
     bind_exn (py_split inner ''```'') (\<lambda>parts'.
       py_nth parts' 0)))"

definition extract_json :: "string \<Rightarrow> py_exn + string" where
  "extract_json response_text =
     (if contains ''```json'' response_text then fenced response_text ''```json''
      else if contains ''```'' response_text then fenced response_text ''```''
      else Inr response_text)"

definition lift_exn :: "runtime \<Rightarrow> py_exn + 'a \<Rightarrow> raised + 'a" where
  "lift_exn rt m = (case m of Inl e \<Rightarrow> Inl (OtherError (exn_text rt e)) | Inr x \<Rightarrow> Inr x)"

definition attach_issues :: "pyval \<Rightarrow> bool \<times> string list \<Rightarrow> py_exn + pyval" where
  "attach_issues profile v =
     (if \<not> fst v then py_setitem profile ''_validation_issues'' (PList (map PStr (snd v)))
      else Inr profile)"

definition try_body :: "runtime \<Rightarrow> pyval \<Rightarrow> api_outcome \<Rightarrow> raised + pyval" where
  "try_body rt worker_data outcome =
     (case outcome of
        ApiRaises e \<Rightarrow> Inl e
      | ApiReturns content \<Rightarrow>
          bind_exn (first_text rt content) (\<lambda>response_text.
          bind_exn (lift_exn rt (extract_json response_text)) (\<lambda>json_str.
          bind_exn (case loads rt (strip rt json_str) of
                      Inl msg \<Rightarrow> Inl (JSONDecodeError msg) | Inr v \<Rightarrow> Inr v) (\<lambda>profile.
          bind_exn (lift_exn rt (validate_profile rt profile worker_data)) (\<lambda>v.
            lift_exn rt (attach_issues profile v))))))"

text \<open>The message returned when the last attempt fails.\<close>

fun final_message :: "raised \<Rightarrow> string" where
  "final_message RateLimitError = ''Rate limited by Anthropic API after retries''"
| "final_message (APIError msg) = ''Anthropic API error: '' @ msg"
| "final_message (JSONDecodeError msg) = ''Failed to parse profile JSON: '' @ msg"
| "final_message (OtherError msg) = ''Error generating profile: '' @ msg"

definition delays :: "int list" where
  "delays = [1, 4, 16]"

text \<open>
  The effects of a call of \<^verbatim>\<open>generate_profile\<close>: how many times the API was
  called, and the sleeps taken, in order.
\<close>

record gen_state =
  api_calls :: nat
  sleeps :: "int list"

type_synonym gen_result = "(pyval option \<times> string option) \<times> gen_state"

text \<open>
  The loop \<^verbatim>\<open>for attempt in range(max_retries)\<close>, over the attempts still to
  come. Every handler does the same: sleep and go on if attempts remain, else return
  the message; \<^verbatim>\<open>delays[attempt]\<close> out of range raises inside the handler and
  leaves the function.
\<close>

fun retry_loop ::
  "runtime \<Rightarrow> (nat \<Rightarrow> api_outcome) \<Rightarrow> pyval \<Rightarrow> int \<Rightarrow> nat list \<Rightarrow> gen_state \<Rightarrow> py_exn + gen_result" where
  "retry_loop rt api worker_data max_retries [] st =
     Inr ((None, Some ''Failed to generate profile after all retries''), st)"
| "retry_loop rt api worker_data max_retries (attempt # rest) st =
     (let st1 = st\<lparr>api_calls := api_calls st + 1\<rparr> in
      case try_body rt worker_data (api (api_calls st)) of
        Inr profile \<Rightarrow> Inr ((Some profile, None), st1)
      | Inl e \<Rightarrow>
          if int attempt < max_retries - 1 then
            bind_exn (py_nth delays attempt) (\<lambda>d.
              retry_loop rt api worker_data max_retries rest (st1\<lparr>sleeps := sleeps st1 @ [d]\<rparr>))
          else Inr ((None, Some (final_message e)), st1))"

definition generate_profile ::
  "runtime \<Rightarrow> string \<Rightarrow> (nat \<Rightarrow> api_outcome) \<Rightarrow> string \<Rightarrow> pyval \<Rightarrow> int \<Rightarrow> gen_state \<Rightarrow> py_exn + gen_result" where
  "generate_profile rt anthropic_api_key api company_name worker_data max_retries st =
     (if anthropic_api_key = [] then Inr ((None, Some ''Anthropic API key not configured''), st)
      else retry_loop rt api worker_data max_retries [0..<nat max_retries] st)"

definition is_transient :: "raised \<Rightarrow> bool" where
  "is_transient e = (case e of OtherError msg \<Rightarrow> False | _ \<Rightarrow> True)"

definition fresh_gen :: gen_state where
  "fresh_gen = \<lparr>api_calls = 0, sleeps = []\<rparr>"

subsection \<open>Sample runs\<close>

definition claimed_profile :: pyval where
  "claimed_profile = PDict
     [(''company_name'', PStr ''Acme''),
      (''operational_snapshot'', PDict [(''detected_technologies'', PList [PStr ''WordPress''])]),
      (''market_position'', PDict [(''public_reputation'', PStr ''Rated 4.8 Stars by customers'')])]"

text \<open>
  A runtime for the sample runs. They are on ASCII text and leave no network location
  to the URL library's address parsers, so here the Unicode mappings are the identity
  and the library refuses whatever is left to it.
\<close>

definition sample_runtime :: runtime where
  "sample_runtime =
     \<lparr>str_of = (\<lambda>v. ''4.5''),
      loads = (\<lambda>s. if s = ''{...}'' then Inr claimed_profile
                    else Inl ''Expecting value: line 1 column 1 (char 0)''),
      exn_text = (\<lambda>e. ''object is not subscriptable''),
      unicode_lower = (\<lambda>s. s),
      unicode_strip = (\<lambda>s. s),
      netloc_accepted = (\<lambda>netloc. False)\<rparr>"

text \<open>Upstream is rate limited, then overloaded, then answers: with prose, or with the profile.\<close>

definition failing_api :: "nat \<Rightarrow> api_outcome" where
  "failing_api n =
     (if n = 0 then ApiRaises RateLimitError
      else if n = 1 then ApiRaises (APIError ''Overloaded'')
      else ApiReturns [TextBlock ''I cannot produce a profile.''])"

definition recovering_api :: "nat \<Rightarrow> api_outcome" where
  "recovering_api n =
     (if n = 0 then ApiRaises RateLimitError
      else if n = 1 then ApiRaises (APIError ''Overloaded'')
      else ApiReturns [TextBlock ''```json {...} ```''])"

definition answering_api :: "nat \<Rightarrow> api_outcome" where
  "answering_api n = ApiReturns [TextBlock ''{...}'']"

text \<open>The business listing was found (the provider succeeded) but it has no rating.\<close>

definition unrated_dataset :: pyval where
  "unrated_dataset = PDict
     [(''site_scraper'', PDict [(''success'', PBool True)]),
      (''tech_detector'', PDict [(''success'', PBool True),
         (''detected'', PList [PDict [(''name'', PStr ''WordPress''), (''confidence'', PInt 50)]])]),
      (''dns_whois'', PDict [(''success'', PBool True),
         (''dns'', PDict [(''mx_records'', PList [PStr ''aspmx.l.google.com''])]),
         (''whois'', PDict [(''registrar'', PNone)])]),
      (''google_business'', PDict [(''success'', PBool True), (''name'', PStr ''Acme''),
         (''rating'', PNone), (''review_count'', PNone)]),
      (''job_scanner'', PDict [(''success'', PBool False), (''total_positions'', PInt 0)])]"

text \<open>The same, with the business listing not found.\<close>

definition unlisted_dataset :: pyval where
  "unlisted_dataset = PDict
     [(''site_scraper'', PDict [(''success'', PBool True)]),
      (''tech_detector'', PDict [(''success'', PBool True),
         (''detected'', PList [PDict [(''name'', PStr ''WordPress''), (''confidence'', PInt 50)]])]),
      (''dns_whois'', PDict [(''success'', PBool True),
         (''dns'', PDict [(''mx_records'', PList [PStr ''aspmx.l.google.com''])]),
         (''whois'', PDict [(''registrar'', PNone)])]),
      (''google_business'', PDict [(''success'', PBool False), (''rating'', PNone),
         (''error'', PStr ''No results found: ZERO_RESULTS'')]),
      (''job_scanner'', PDict [(''success'', PBool False), (''total_positions'', PInt 0)])]"



subsection \<open>The flag on a rating claim, in words\<close>





section \<open>Repository\<close>

text \<open>
  The two tables the pipeline uses, as lists of rows in insertion order. Time stamps are
  clock readings in seconds. The statements are those of \<^verbatim>\<open>database.py\<close>; an insert
  raises when it violates a constraint of the schema (column length, column type,
  uniqueness). Loss of the database connection is not modelled, and a stored profile
  payload is kept as the value itself (its passage through JSONB is not modelled).
\<close>

datatype submission_status =
  Queued | Processing | Complete | Failed | Manual_review | Insufficient_data

record submission_row =
  sub_id :: nat
  sub_company_name :: string
  sub_company_url :: string
  sub_email :: string
  sub_job_id :: string
  sub_auth_token :: string
  sub_status :: submission_status
  sub_created_at :: nat
  sub_completed_at :: "nat option"

record profile_row =
  prof_id :: nat
  prof_submission_id :: nat
  profile_json :: pyval
  data_sources_used :: "string list"
  confidence_score :: "string option"
  prof_created_at :: nat

record database =
  submissions :: "submission_row list"
  profiles :: "profile_row list"

datatype db_error = ConstraintViolation


definition get_submission_by_job_id :: "database \<Rightarrow> string \<Rightarrow> submission_row option" where
  "get_submission_by_job_id d job_id = find (\<lambda>s. sub_job_id s = job_id) (submissions d)"

text \<open>
  \<^verbatim>\<open>ORDER BY created_at DESC LIMIT 1\<close>: a row with the greatest \<^verbatim>\<open>created_at\<close>
  (among equals SQL leaves the choice open; the model takes the first inserted).
\<close>

fun latest :: "submission_row list \<Rightarrow> submission_row option" where
  "latest [] = None"
| "latest (s # ss) =
     (case latest ss of
        None \<Rightarrow> Some s
      | Some b \<Rightarrow> if sub_created_at s < sub_created_at b then Some b else Some s)"

definition get_submission_by_url :: "database \<Rightarrow> nat \<Rightarrow> string \<Rightarrow> submission_row option" where
  "get_submission_by_url d now url =
     latest (filter (\<lambda>s. sub_company_url s = url \<and> sub_status s = Complete
                         \<and> now < sub_created_at s + 86400) (submissions d))"

text \<open>\<^verbatim>\<open>if completed_at:\<close> chooses between the two UPDATE statements.\<close>

definition update_submission_status ::
  "database \<Rightarrow> string \<Rightarrow> submission_status \<Rightarrow> nat option \<Rightarrow> database" where
  "update_submission_status d job_id status completed_at =
     d\<lparr>submissions := map (\<lambda>s.
         if sub_job_id s = job_id then
           (case completed_at of
              Some t \<Rightarrow> s\<lparr>sub_status := status, sub_completed_at := Some t\<rparr>
            | None \<Rightarrow> s\<lparr>sub_status := status\<rparr>)
         else s) (submissions d)\<rparr>"

text \<open>
  \<^verbatim>\<open>confidence_score\<close> is a nullable \<^verbatim>\<open>VARCHAR(50)\<close>: a string of at most 50
  characters or \<^verbatim>\<open>None\<close> can be stored, anything else is refused.
\<close>

fun storable_confidence :: "pyval \<Rightarrow> db_error + string option" where
  "storable_confidence PNone = Inr None"
| "storable_confidence (PStr s) = (if length s \<le> 50 then Inr (Some s) else Inl ConstraintViolation)"
| "storable_confidence _ = Inl ConstraintViolation"

definition create_profile ::
  "database \<Rightarrow> nat \<Rightarrow> nat \<Rightarrow> pyval \<Rightarrow> string list \<Rightarrow> pyval \<Rightarrow> db_error + (nat \<times> database)" where
  "create_profile d now submission_id profile_json' data_sources_used' confidence_score' =
     bind_exn (storable_confidence confidence_score') (\<lambda>confidence.
       let new_id = Suc (length (profiles d)) in
         Inr (new_id,
              d\<lparr>profiles := profiles d @
                 [\<lparr>prof_id = new_id, prof_submission_id = submission_id,
                   profile_json = profile_json', data_sources_used = data_sources_used',
                   confidence_score = confidence, prof_created_at = now\<rparr>]\<rparr>))"

definition get_profile_by_submission_id :: "database \<Rightarrow> nat \<Rightarrow> profile_row option" where
  "get_profile_by_submission_id d submission_id =
     find (\<lambda>p. prof_submission_id p = submission_id) (profiles d)"

text \<open>A value read back from the \<^verbatim>\<open>confidence_score\<close> column.\<close>

definition column_value :: "string option \<Rightarrow> pyval" where
  "column_value c = (case c of None \<Rightarrow> PNone | Some s \<Rightarrow> PStr s)"

section \<open>The orchestrator\<close>

record intake_request =
  req_company_name :: string
  req_company_url :: string
  req_email :: string

datatype email_kind = ProfileReady | InsufficientData | ErrorNotice

text \<open>
  Everything the orchestrator can change: the database, the Redis client, the tasks
  handed to the background runner, and a log of the calls made to the outside: which
  providers were called, the API calls and sleeps of the synthesizer, the emails sent.
  (The functions of \<^verbatim>\<open>email_service.py\<close> catch their own errors and their result
  is ignored, so an email is only logged.)
\<close>

record world =
  db :: database
  redis_client :: "redis_store option"
  background_tasks :: "(string \<times> string \<times> intake_request) list"
  provider_calls :: "string list"
  gen :: gen_state
  emails :: "(email_kind \<times> string) list"

text \<open>
  A provider call returns its result dictionary, or raises an \<^verbatim>\<open>Exception\<close>, or ends
  with a \<^verbatim>\<open>BaseException\<close> that is not an \<^verbatim>\<open>Exception\<close> (the \<^verbatim>\<open>CancelledError\<close> of
  a cancelled task); each exception comes with its \<^verbatim>\<open>str(e)\<close>. What each provider
  does, what the upstream API does on each call, and whether writing the cache key fails
  are the environment of a run. One clock reading \<open>now\<close> serves every step of a run.
\<close>

datatype provider_outcome = Returned pyval | Raised string | RaisedBase string

record environment =
  env_runtime :: runtime
  env_api_key :: string
  env_providers :: "string \<Rightarrow> provider_outcome"
  env_api :: "nat \<Rightarrow> api_outcome"
  env_cache_store_fails :: bool

subsection \<open>Providers\<close>

text \<open>
  The five workers share one pattern. A result dictionary, with \<^verbatim>\<open>success\<close> false and
  \<^verbatim>\<open>error\<close> \<^verbatim>\<open>None\<close>, is filled in by the body of a \<^verbatim>\<open>try\<close> block whose last
  assignment sets \<^verbatim>\<open>success\<close>; each handler catches a class of \<^verbatim>\<open>Exception\<close>, stores
  a message under \<^verbatim>\<open>error\<close> and falls through to \<^verbatim>\<open>return result\<close>. No handler catches
  a \<^verbatim>\<open>BaseException\<close> that is not an \<^verbatim>\<open>Exception\<close> (the \<^verbatim>\<open>CancelledError\<close> of a
  cancelled task): it leaves the worker. Each exception comes with its \<^verbatim>\<open>str(e)\<close>.
\<close>

datatype worker_exn =
    TimeoutException string
  | HTTPStatusError int string
  | OtherException string
  | NotAnException string















text \<open>
  \<^verbatim>\<open>lookup_dns_whois(url)\<close>. The domain is taken from the URL (the parser may raise);
  each of the two lookups returns its dictionary, times out, which is caught on the
  spot and recorded in the lookup's own field, or raises something else, which leaves
  the body. \<^verbatim>\<open>success\<close> is \<^verbatim>\<open>bool(result["dns"] or result["whois"])\<close>.
\<close>

datatype lookup = LookupReturns pyval | LookupTimesOut | LookupThrows worker_exn

record dns_run =
  url_domain :: "string + string"
  dns_lookup :: lookup
  whois_lookup :: lookup

















subsection \<open>A failed provider, in words\<close>











subsection \<open>Fan-out\<close>

definition provider_names :: "string list" where
  "provider_names =
     [''site_scraper'', ''tech_detector'', ''dns_whois'', ''google_business'', ''job_scanner'']"

text \<open>
  \<^verbatim>\<open>asyncio.gather(..., return_exceptions=True)\<close>: one result per provider, in order;
  where a call ended with an exception, of either kind, the result is the exception.
\<close>

definition gather :: "(string \<Rightarrow> provider_outcome) \<Rightarrow> provider_outcome list" where
  "gather run = map run provider_names"

text \<open>
  \<^verbatim>\<open>r if not isinstance(r, Exception) else {"success": False, "error": str(r)}\<close>: a
  result that is no \<^verbatim>\<open>Exception\<close> is kept as it is, also when it is an exception of
  the other kind.
\<close>

fun entry_of :: "provider_outcome \<Rightarrow> pyval" where
  "entry_of (Returned v) = v"
| "entry_of (Raised msg) = PDict [(''success'', PBool False), (''error'', PStr msg)]"
| "entry_of (RaisedBase msg) = PException msg"

definition organize_results :: "provider_outcome list \<Rightarrow> pyval" where
  "organize_results worker_results = PDict
     [(''site_scraper'', entry_of (worker_results ! 0)),
      (''tech_detector'', entry_of (worker_results ! 1)),
      (''dns_whois'', entry_of (worker_results ! 2)),
      (''google_business'', entry_of (worker_results ! 3)),
      (''job_scanner'', entry_of (worker_results ! 4))]"

definition fan_out :: "(string \<Rightarrow> provider_outcome) \<Rightarrow> pyval" where
  "fan_out run = organize_results (gather run)"

subsection \<open>\<^verbatim>\<open>process_submission\<close>\<close>

datatype failure = PyFailure py_exn | DbFailure db_error

text \<open>
  The cache branch. \<open>None\<close>: the branch is not taken and the run goes on to the
  fan-out. Otherwise the branch returns (or raises), with the world it leaves.
\<close>

definition cached_branch ::
  "nat \<Rightarrow> string \<Rightarrow> intake_request \<Rightarrow> string \<Rightarrow> world \<Rightarrow> (failure option \<times> world) option" where
  "cached_branch now job_id submission url w =
     (case get_submission_by_url (db w) now url of
        None \<Rightarrow> None
      | Some cached \<Rightarrow>
          if sub_status cached = Complete then
            (case get_profile_by_submission_id (db w) (sub_id cached) of
               None \<Rightarrow> None
             | Some cached_profile \<Rightarrow>
                 (case get_submission_by_job_id (db w) job_id of
                    None \<Rightarrow> None
                  | Some current \<Rightarrow>
                      (case create_profile (db w) now (sub_id current)
                              (profile_json cached_profile) (data_sources_used cached_profile)
                              (column_value (confidence_score cached_profile)) of
                         Inl e \<Rightarrow> Some (Some (DbFailure e), w)
                       | Inr (pid, d) \<Rightarrow>
                           Some (None,
                             w\<lparr>db := update_submission_status d job_id Complete (Some now),
                               emails := emails w @ [(ProfileReady, req_email submission)]\<rparr>))))
          else None)"

text \<open>\<^verbatim>\<open>profile.get("data_confidence", {}).get("overall_score", "Medium")\<close>\<close>

definition overall_score :: "pyval \<Rightarrow> py_exn + pyval" where
  "overall_score profile =
     bind_exn (py_get profile ''data_confidence'' (PDict [])) (\<lambda>dc.
       py_get dc ''overall_score'' (PStr ''Medium''))"

text \<open>Storing the profile, completing the submission and writing the cache key.\<close>

definition store_and_complete ::
  "environment \<Rightarrow> nat \<Rightarrow> string \<Rightarrow> intake_request \<Rightarrow> string \<Rightarrow> pyval \<Rightarrow> string list \<Rightarrow> world
     \<Rightarrow> failure option \<times> world" where
  "store_and_complete env now job_id submission url profile available_sources w =
     (let stored =
        (case get_submission_by_job_id (db w) job_id of
           None \<Rightarrow> Inr w
         | Some current \<Rightarrow>
             (case overall_score profile of
                Inl e \<Rightarrow> Inl (PyFailure e)
              | Inr confidence \<Rightarrow>
                  (case create_profile (db w) now (sub_id current) profile available_sources
                          confidence of
                     Inl e \<Rightarrow> Inl (DbFailure e)
                   | Inr (pid, d) \<Rightarrow> Inr (w\<lparr>db := d\<rparr>))))
      in case stored of
           Inl e \<Rightarrow> (Some e, w)
         | Inr w1 \<Rightarrow>
             (let w2 = w1\<lparr>db := update_submission_status (db w1) job_id Complete (Some now),
                          emails := emails w1 @ [(ProfileReady, req_email submission)]\<rparr>
              in case redis_client w2 of
                   None \<Rightarrow> (None, w2)
                 | Some r \<Rightarrow>
                     if env_cache_store_fails env then (None, w2)
                     else (None, w2\<lparr>redis_client :=
                             Some (r\<lparr>profile_cache :=
                                      (profile_cache r)(url \<mapsto> (job_id, now + 86400))\<rparr>)\<rparr>)))"

text \<open>\<^verbatim>\<open>if error or not profile\<close>\<close>

definition synthesis_failed :: "pyval option \<times> string option \<Rightarrow> bool" where
  "synthesis_failed res =
     ((case snd res of None \<Rightarrow> False | Some msg \<Rightarrow> msg \<noteq> [])
      \<or> (case fst res of None \<Rightarrow> True | Some profile \<Rightarrow> \<not> truthy profile))"

definition full_pipeline ::
  "environment \<Rightarrow> nat \<Rightarrow> string \<Rightarrow> intake_request \<Rightarrow> string \<Rightarrow> world \<Rightarrow> failure option \<times> world" where
  "full_pipeline env now job_id submission url w =
     (let worker_data = fan_out (env_providers env);
          w1 = w\<lparr>provider_calls := provider_calls w @ provider_names\<rparr>
      in case check_data_sufficiency worker_data of
           Inl e \<Rightarrow> (Some (PyFailure e), w1)
         | Inr (is_sufficient, available_sources) \<Rightarrow>
             if \<not> is_sufficient then
               (None, w1\<lparr>db := update_submission_status (db w1) job_id Insufficient_data (Some now),
                         emails := emails w1 @ [(InsufficientData, req_email submission)]\<rparr>)
             else
               (case generate_profile (env_runtime env) (env_api_key env) (env_api env)
                       (req_company_name submission) worker_data 3 (gen w1) of
                  Inl e \<Rightarrow> (Some (PyFailure e), w1)
                | Inr (res, g) \<Rightarrow>
                    (let w2 = w1\<lparr>gen := g\<rparr> in
                       if synthesis_failed res then
                         (None, w2\<lparr>db := update_submission_status (db w2) job_id Failed (Some now),
                                   emails := emails w2 @ [(ErrorNotice, req_email submission)]\<rparr>)
                       else
                         (case fst res of
                            None \<Rightarrow> (None, w2)
                          | Some profile \<Rightarrow>
                              store_and_complete env now job_id submission url profile
                                available_sources w2))))"

definition process_body ::
  "environment \<Rightarrow> nat \<Rightarrow> string \<Rightarrow> string \<Rightarrow> intake_request \<Rightarrow> world \<Rightarrow> failure option \<times> world" where
  "process_body env now job_id auth_token submission w =
     (let w1 = w\<lparr>db := update_submission_status (db w) job_id Processing None\<rparr>;
          url = normalize_url (req_company_url submission)
      in case cached_branch now job_id submission url w1 of
           Some r \<Rightarrow> r
         | None \<Rightarrow> full_pipeline env now job_id submission url w1)"

text \<open>The outermost \<^verbatim>\<open>except Exception\<close>: mark the submission failed and notify.\<close>

definition process_submission ::
  "environment \<Rightarrow> nat \<Rightarrow> string \<Rightarrow> string \<Rightarrow> intake_request \<Rightarrow> world \<Rightarrow> world" where
  "process_submission env now job_id auth_token submission w =
     (case process_body env now job_id auth_token submission w of
        (None, w') \<Rightarrow> w'
      | (Some e, w') \<Rightarrow>
          w'\<lparr>db := update_submission_status (db w') job_id Failed (Some now),
             emails := emails w' @ [(ErrorNotice, req_email submission)]\<rparr>)"

subsection \<open>\<^verbatim>\<open>submit_intake\<close>\<close>





subsection \<open>Sample runs of the orchestrator\<close>









text \<open>
  A first submission for \<^verbatim>\<open>https://acme.com\<close>, created at time 0 and completed, with
  its profile, at time 60; and a second submission for the same URL, created at \<open>t\<close>.
\<close>

definition prior_submission :: submission_row where
  "prior_submission =
     \<lparr>sub_id = 1, sub_company_name = ''Acme'', sub_company_url = ''https://acme.com'',
      sub_email = ''ops@acme.com'', sub_job_id = ''job-1'', sub_auth_token = ''token-1'',
      sub_status = Complete, sub_created_at = 0, sub_completed_at = Some 60\<rparr>"

definition prior_profile :: profile_row where
  "prior_profile =
     \<lparr>prof_id = 1, prof_submission_id = 1, profile_json = claimed_profile,
      data_sources_used = [''Website Content'', ''Technology Stack'', ''DNS Records''],
      confidence_score = Some ''High'', prof_created_at = 60\<rparr>"

definition resubmission_row :: "nat \<Rightarrow> submission_row" where
  "resubmission_row t =
     \<lparr>sub_id = 2, sub_company_name = ''Acme'', sub_company_url = ''https://acme.com'',
      sub_email = ''ops@acme.com'', sub_job_id = ''job-2'', sub_auth_token = ''token-2'',
      sub_status = Queued, sub_created_at = t, sub_completed_at = None\<rparr>"

definition resubmitted_world :: "nat \<Rightarrow> world" where
  "resubmitted_world t =
     \<lparr>db = \<lparr>submissions = [prior_submission, resubmission_row t], profiles = [prior_profile]\<rparr>,
      redis_client = None, background_tasks = [], provider_calls = [], gen = fresh_gen,
      emails = []\<rparr>"

definition resubmission :: intake_request where
  "resubmission =
     \<lparr>req_company_name = ''Acme'', req_company_url = ''acme.com/'',
      req_email = ''ops@acme.com''\<rparr>"

definition providers_down :: environment where
  "providers_down =
     \<lparr>env_runtime = sample_runtime, env_api_key = ''sk-key'',
      env_providers = (\<lambda>name. Raised ''service unavailable''),
      env_api = answering_api, env_cache_store_fails = False\<rparr>"

section \<open>Theorems\<close>

lemma bind_exn_simps [simp]:
  "bind_exn (Inl e) f = Inl e"
  "bind_exn (Inr x) f = f x"
  by (simp_all add: bind_exn_def)

subsection \<open>Sufficiency scorer\<close>

lemma shape_entries:
  assumes "dataset_shape ds"
  obtains kvs site tech dnsw google jobs where
    "ds = PDict kvs"
    "map_of kvs ''site_scraper'' = Some (PDict site)"
    "map_of kvs ''tech_detector'' = Some (PDict tech)"
    "map_of kvs ''dns_whois'' = Some (PDict dnsw)"
    "map_of kvs ''google_business'' = Some (PDict google)"
    "map_of kvs ''job_scanner'' = Some (PDict jobs)"
proof -
  from assms obtain kvs where ds: "ds = PDict kvs"
    by (cases ds) (simp_all add: dataset_shape_def)
  have ex: "\<exists>e. map_of kvs name = Some (PDict e)"
    if "name \<in> set [''site_scraper'', ''tech_detector'', ''dns_whois'',
          ''google_business'', ''job_scanner'']"
    for name
  proof -
    from assms that have "case entry_field ds name of Some e \<Rightarrow> is_dict e | None \<Rightarrow> False"
      unfolding dataset_shape_def list_all_iff by blast
    then show ?thesis
      using ds by (auto split: option.splits elim: is_dict.elims)
  qed
  from ex[of "''site_scraper''"] ex[of "''tech_detector''"] ex[of "''dns_whois''"]
    ex[of "''google_business''"] ex[of "''job_scanner''"] that ds
  show thesis by auto
qed

lemma score_site_scraper_eq:
  assumes "dataset_shape ds"
  shows "score_site_scraper ds t =
    Inr (if has_site_content ds then (fst t @ [''Website Content''], snd t + 2) else t)"
  using assms
  by (rule shape_entries)
     (simp add: score_site_scraper_def has_site_content_def provider_succeeded_def
        split: option.splits)

lemma score_tech_detector_eq:
  assumes "dataset_shape ds"
  shows "score_tech_detector ds t =
    Inr (if has_technologies ds then (fst t @ [''Technology Stack''], snd t + 1) else t)"
  using assms
  by (rule shape_entries)
     (simp add: score_tech_detector_def has_technologies_def provider_succeeded_def
        split: option.splits)

lemma score_dns_whois_eq:
  assumes "dataset_shape ds"
  shows "score_dns_whois ds t =
    Inr (fst t @ (if has_mx_records ds then [''DNS Records''] else []) @
                 (if has_registrar ds then [''Domain WHOIS''] else []),
         snd t + (if has_mx_records ds then 1 else 0) + (if has_registrar ds then 1 else 0))"
proof (rule shape_entries[OF assms])
  fix kvs site tech dnsw google jobs
  assume ds: "ds = PDict kvs" and d: "map_of kvs ''dns_whois'' = Some (PDict dnsw)"
  from assms ds d have a: "is_dict_or_absent (map_of dnsw ''dns'')"
    and b: "is_dict_or_absent (map_of dnsw ''whois'')"
    by (simp_all add: dataset_shape_def)
  from a obtain dns where
    dns: "map_of dnsw ''dns'' = None \<or> map_of dnsw ''dns'' = Some (PDict dns)"
    by (cases "map_of dnsw ''dns''") (auto elim: is_dict.elims)
  from b obtain whois where
    whois: "map_of dnsw ''whois'' = None \<or> map_of dnsw ''whois'' = Some (PDict whois)"
    by (cases "map_of dnsw ''whois''") (auto elim: is_dict.elims)
  from ds d dns whois show ?thesis
    by (auto simp add: score_dns_whois_def score_dns_mx_def score_whois_registrar_def
        has_mx_records_def has_registrar_def provider_succeeded_def
        split: option.splits)
qed

lemma score_google_business_eq:
  assumes "dataset_shape ds"
  shows "score_google_business ds t =
    Inr (if has_rating ds then (fst t @ [''Google Business Profile''], snd t + 1) else t)"
  using assms
  by (rule shape_entries)
     (simp add: score_google_business_def has_rating_def provider_succeeded_def
        split: option.splits)

lemma py_gt0_number:
  "is_number_or_absent (Some v) \<Longrightarrow> py_gt0 v = Inr (positive_number v)"
  by (cases v) simp_all

lemma score_job_scanner_eq:
  assumes "dataset_shape ds"
  shows "score_job_scanner ds t =
    Inr (if has_job_postings ds then (fst t @ [''Job Postings''], snd t) else t)"
proof (rule shape_entries[OF assms])
  fix kvs site tech dnsw google jobs
  assume ds: "ds = PDict kvs" and j: "map_of kvs ''job_scanner'' = Some (PDict jobs)"
  from assms ds j have num: "is_number_or_absent (map_of jobs ''total_positions'')"
    by (simp add: dataset_shape_def)
  show ?thesis
  proof (cases "map_of jobs ''total_positions''")
    case None
    with ds j show ?thesis
      by (simp add: score_job_scanner_def has_job_postings_def provider_succeeded_def
          split: option.splits)
  next
    case (Some v)
    with num have "py_gt0 v = Inr (positive_number v)" by (simp add: py_gt0_number)
    with ds j Some show ?thesis
      by (simp add: score_job_scanner_def has_job_postings_def provider_succeeded_def
          split: option.splits)
  qed
qed

lemma sample_dataset_shape: "dataset_shape sample_dataset"
  by (simp add: dataset_shape_def sample_dataset_def)

text \<open>
  Claim C1. On every dataset of the five providers, \<^verbatim>\<open>check_data_sufficiency\<close>
  returns (it does not raise), its flag is true exactly when the weight of the signals
  present is at least 3, and its source list names the signals present, in the table's
  order. The table: site scraper succeeded 2; technology list non-empty 1; MX records
  present 1; registrar known 1; Google Business rating present 1; a positive number of
  job postings 0, though it is named in the source list. A signal of a provider counts
  as present only when that provider's \<^verbatim>\<open>success\<close> flag is set as well.
\<close>

theorem sufficiency_matches_weight_table:
  assumes "dataset_shape ds"
  shows "check_data_sufficiency ds = Inr (3 \<le> signal_weight ds, signal_sources ds)"
  unfolding check_data_sufficiency_def
  by (simp add: score_site_scraper_eq[OF assms] score_tech_detector_eq[OF assms]
      score_dns_whois_eq[OF assms] score_google_business_eq[OF assms]
      score_job_scanner_eq[OF assms] signal_weight_def signal_sources_def)

theorem sufficiency_matches_weight_table_witness:
  "dataset_shape sample_dataset \<and>
   signal_weight sample_dataset = 4 \<and>
   check_data_sufficiency sample_dataset =
     Inr (True, [''Technology Stack'', ''DNS Records'', ''Domain WHOIS'',
                 ''Google Business Profile'', ''Job Postings''])"
proof -
  have w: "signal_weight sample_dataset = 4"
    by (simp add: signal_weight_def sample_dataset_def has_site_content_def
        has_technologies_def has_mx_records_def has_registrar_def has_rating_def
        has_job_postings_def provider_succeeded_def)
  have s: "signal_sources sample_dataset =
      [''Technology Stack'', ''DNS Records'', ''Domain WHOIS'',
       ''Google Business Profile'', ''Job Postings'']"
    by (simp add: signal_sources_def sample_dataset_def has_site_content_def
        has_technologies_def has_mx_records_def has_registrar_def has_rating_def
        has_job_postings_def provider_succeeded_def)
  from sufficiency_matches_weight_table[OF sample_dataset_shape] w s sample_dataset_shape
  show ?thesis by simp
qed

text \<open>
  Claim C2. The source's comment on the threshold reads "Need at least 3 points
  (e.g., site scraper alone, ...)", and the claim says the same: the site scraper alone
  suffices. The code gives the site scraper 2 points and asks for 3, so on a dataset
  where only the site scraper reports a signal the result is insufficient.
\<close>

theorem site_scraper_alone_is_insufficient:
  "check_data_sufficiency site_only_dataset = Inr (False, [''Website Content''])"
  by code_simp

subsection \<open>Domain validator\<close>

text \<open>
  \<^verbatim>\<open>endswith("." + parent)\<close> is the subdomain relation on label sequences.
\<close>

lemma labels_nonempty: "labels s \<noteq> []"
  by (induction s) (auto split: list.splits)

lemma labels_append_dot: "labels (a @ ''.'' @ b) = labels a @ labels b"
  by (induction a) (auto split: list.splits simp: labels_nonempty)

lemma join_labels_Cons: "join_labels ((c # l) # ls) = c # join_labels (l # ls)"
  by (cases ls) simp_all

lemma join_labels_labels: "join_labels (labels s) = s"
proof (induction s)
  case Nil
  show ?case by simp
next
  case (Cons c cs)
  obtain l ls where l: "labels cs = l # ls"
    using labels_nonempty[of cs] by (cases "labels cs") auto
  with Cons show ?case by (simp add: join_labels_Cons)
qed

lemma join_labels_append:
  "us \<noteq> [] \<Longrightarrow> vs \<noteq> [] \<Longrightarrow>
   join_labels (us @ vs) = join_labels us @ ''.'' @ join_labels vs"
proof (induction us rule: join_labels.induct)
  case 1
  then show ?case by simp
next
  case (2 l)
  then obtain v vs' where "vs = v # vs'" by (cases vs) auto
  then show ?case by simp
next
  case (3 l l' ls)
  then show ?case by simp
qed

lemma endswith_dot_iff_subdomain:
  "suffix (''.'' @ parent) d \<longleftrightarrow> strict_subdomain d parent"
proof
  assume "suffix (''.'' @ parent) d"
  then obtain q where "d = q @ ''.'' @ parent" by (auto simp: suffix_def)
  then have l: "labels d = labels q @ labels parent" by (simp only: labels_append_dot)
  have "labels q \<noteq> []" by (rule labels_nonempty)
  with l show "strict_subdomain d parent"
    by (auto simp: strict_subdomain_def strict_suffix_def suffix_def)
next
  assume "strict_subdomain d parent"
  then obtain us where us: "labels d = us @ labels parent" "us \<noteq> []"
    by (auto simp: strict_subdomain_def strict_suffix_def suffix_def)
  have "d = join_labels (labels d)" by (simp add: join_labels_labels)
  also have "\<dots> = join_labels us @ ''.'' @ join_labels (labels parent)"
    unfolding us(1) using us(2) labels_nonempty[of parent] by (rule join_labels_append)
  finally have "d = join_labels us @ ''.'' @ parent" by (simp add: join_labels_labels)
  then show "suffix (''.'' @ parent) d" by (metis suffixI)
qed

text \<open>The domain of an address with one \<^verbatim>\<open>@\<close> is what follows it, lower-cased.\<close>

lemma split_at_first:
  "CHR ''@'' \<notin> set l \<Longrightarrow>
   split_from ''@'' acc (l @ CHR ''@'' # r) = (rev acc @ l) # split_from ''@'' [] r"
  by (induction l arbitrary: acc) auto

lemma split_none:
  "CHR ''@'' \<notin> set d \<Longrightarrow> split_from ''@'' acc d = [rev acc @ d]"
  by (induction d arbitrary: acc) auto

lemma email_domain_of_address:
  assumes "CHR ''@'' \<notin> set local_part" and "CHR ''@'' \<notin> set domain_part"
  shows "email_domain_of rt (local_part @ ''@'' @ domain_part) = Inr (lower rt domain_part)"
proof -
  have "split_from ''@'' [] (local_part @ ''@'' @ domain_part) = [local_part, domain_part]"
    using split_at_first[OF assms(1), of "[]" domain_part] split_none[OF assms(2), of "[]"] by simp
  then show ?thesis
    by (simp add: email_domain_of_def py_split_def py_nth_def)
qed

text \<open>
  Host extraction on a plain host name: the scheme defaults to https, trailing
  slashes are stripped, the name is lower-cased and a leading \<^verbatim>\<open>www.\<close> removed.
\<close>

lemma host_char_not:
  assumes "list_all host_char h"
  shows "CHR '':'' \<notin> set h" "CHR ''/'' \<notin> set h" "CHR ''?'' \<notin> set h" "CHR ''#'' \<notin> set h"
    "CHR ''['' \<notin> set h" "CHR '']'' \<notin> set h"
  using assms by (auto simp: list_all_iff host_char_def)

lemma host_char_ascii:
  assumes "list_all host_char h"
  shows "list_all is_ascii h"
  using assms by (induction h) (auto simp: host_char_def is_ascii_def Let_def)

lemma host_char_kept:
  assumes "list_all host_char h"
  shows "filter (\<lambda>c. (of_char c :: nat) \<notin> {9, 10, 13}) h = h"
  using assms by (induction h) (auto simp: host_char_def)

lemma rstrip_slash_host:
  assumes "h \<noteq> []" "list_all host_char h"
  shows "rstrip_slash (p @ h) = p @ h"
proof -
  from assms obtain c h' where h: "rev h = c # h'" by (cases "rev h") auto
  then have "c \<in> set h" by (metis list.set_intros(1) set_rev)
  with host_char_not(2)[OF assms(2)] have "c \<noteq> CHR ''/''" by auto
  then have "dropWhile (\<lambda>c. c = CHR ''/'') (rev (p @ h)) = rev (p @ h)"
    using h by simp
  then show ?thesis by (simp add: rstrip_slash_def del: rev_append) 
qed

lemma rstrip_slash_trailing:
  "rstrip_slash (s @ ''/'') = rstrip_slash s"
  by (simp add: rstrip_slash_def)

lemma takeWhile_all: "(\<And>x. x \<in> set xs \<Longrightarrow> P x) \<Longrightarrow> takeWhile P xs = xs"
  by (induction xs) auto

lemma netloc_of_host:
  assumes "list_all host_char h"
  shows "urlparse_netloc rt (''https://'' @ h) = Inr h"
    and "urlparse_netloc rt (''http://'' @ h) = Inr h"
proof -
  note no = host_char_not[OF assms]
  note ascii = host_char_ascii[OF assms]
  have tw: "takeWhile (\<lambda>c. c \<notin> set ''/?#'') h = h"
    using no by (intro takeWhile_all) auto
  have s1: "strip_scheme (''https://'' @ h) = ''//'' @ h"
    by (simp add: strip_scheme_def is_ascii_alpha_def is_scheme_char_def Let_def)
  have s2: "strip_scheme (''http://'' @ h) = ''//'' @ h"
    by (simp add: strip_scheme_def is_ascii_alpha_def is_scheme_char_def Let_def)
  have f1: "filter (\<lambda>c. (of_char c :: nat) \<notin> {9, 10, 13}) (''https://'' @ h) = ''https://'' @ h"
    using host_char_kept[OF assms] by simp
  have f2: "filter (\<lambda>c. (of_char c :: nat) \<notin> {9, 10, 13}) (''http://'' @ h) = ''http://'' @ h"
    using host_char_kept[OF assms] by simp
  have d1: "dropWhile (\<lambda>c. (of_char c :: nat) \<le> 32) (''https://'' @ h) = ''https://'' @ h"
    by simp
  have d2: "dropWhile (\<lambda>c. (of_char c :: nat) \<le> 32) (''http://'' @ h) = ''http://'' @ h"
    by simp
  show "urlparse_netloc rt (''https://'' @ h) = Inr h"
    unfolding urlparse_netloc_def Let_def d1 f1 s1 using no ascii
    by (simp add: tw del: set_simps)
  show "urlparse_netloc rt (''http://'' @ h) = Inr h"
    unfolding urlparse_netloc_def Let_def d2 f2 s2 using no ascii
    by (simp add: tw del: set_simps)
qed

lemma no_scheme_prefix:
  assumes "list_all host_char h"
  shows "\<not> prefix ''http://'' h" "\<not> prefix ''https://'' h"
  using host_char_not(1)[OF assms] by (auto simp: prefix_def)

lemma extract_domain_host:
  assumes "h \<noteq> []" "list_all host_char h"
  shows "extract_domain rt h = Inr (normalized_host h)"
    and "extract_domain rt (''https://'' @ h) = Inr (normalized_host h)"
    and "extract_domain rt (''http://'' @ h @ ''/'') = Inr (normalized_host h)"
proof -
  have low: "lower rt h = map lower_char h"
    using host_char_ascii[OF assms(2)] by (simp add: lower_def)
  have n1: "normalize_url h = ''https://'' @ h"
    using no_scheme_prefix[OF assms(2)] rstrip_slash_host[OF assms, of "''https://''"]
    by (simp add: normalize_url_def)
  have n2: "normalize_url (''https://'' @ h) = ''https://'' @ h"
    using rstrip_slash_host[OF assms, of "''https://''"]
    by (simp add: normalize_url_def)
  have n3: "normalize_url (''http://'' @ h @ ''/'') = ''http://'' @ h"
    using rstrip_slash_trailing[of "''http://'' @ h"] rstrip_slash_host[OF assms, of "''http://''"]
    by (simp add: normalize_url_def)
  show "extract_domain rt h = Inr (normalized_host h)"
    unfolding extract_domain_def n1 netloc_of_host(1)[OF assms(2)]
    by (simp add: Let_def low normalized_host_def)
  show "extract_domain rt (''https://'' @ h) = Inr (normalized_host h)"
    unfolding extract_domain_def n2 netloc_of_host(1)[OF assms(2)]
    by (simp add: Let_def low normalized_host_def)
  show "extract_domain rt (''http://'' @ h @ ''/'') = Inr (normalized_host h)"
    unfolding extract_domain_def n3 netloc_of_host(2)[OF assms(2)]
    by (simp add: Let_def low normalized_host_def)
qed

text \<open>
  The URL parser refuses a bracketed host that is no address, whatever the library's
  address parsers accept.
\<close>

lemma bracketed_name_raises:
  "validate_email_domain rt ''jane@gmail.com'' ''[abc]'' = Inl ValueError"
  by code_simp

text \<open>
  Claim C9, as stated, fails: the URL's host is extracted before the generic-provider
  test, and the URL parser raises on a network location with an unmatched square
  bracket, so \<^verbatim>\<open>jane@gmail.com\<close> against the URL \<^verbatim>\<open>[\<close> raises ValueError
  instead of returning (true, true).
\<close>

theorem generic_email_bad_url_raises:
  "validate_email_domain sample_runtime ''jane@gmail.com'' ''['' = Inl ValueError"
  by code_simp

text \<open>
  Claim C9, amended. For every email on which taking the domain returns (\<open>ed\<close>: the
  second of the pieces between \<^verbatim>\<open>@\<close>, lower-cased) and every URL on which host
  extraction returns (\<open>ud\<close>; the URL parser raises ValueError on a network location
  with an unmatched square bracket, with a bracketed host that is no IPv6 or IPvFuture
  address, such as \<^verbatim>\<open>[abc]\<close>, or with non-ASCII characters it refuses), the validator
  returns (true, true) when \<open>ed\<close> is a generic provider, otherwise (true, false) when
  \<open>ed = ud\<close> or the labels of one end with the labels of the other, and
  (false, false) otherwise. For an address \<open>local@domain\<close> with one \<^verbatim>\<open>@\<close>, \<open>ed\<close> is
  the domain lower-cased; for a URL that is a plain host name \<open>h\<close> (letters, digits,
  hyphens, dots), with or without \<^verbatim>\<open>https://\<close> or \<^verbatim>\<open>http://\<close> in front and a
  slash behind, extraction returns and \<open>ud\<close> is \<open>h\<close> lower-cased without a leading
  \<^verbatim>\<open>www.\<close>. \<^verbatim>\<open>jane@gmail.com\<close> against any URL on which extraction returns
  gives (true, true), \<^verbatim>\<open>ops@sub.acme.com\<close> against \<^verbatim>\<open>acme.com\<close> gives
  (true, false) and \<^verbatim>\<open>ops@other.com\<close> against \<^verbatim>\<open>acme.com\<close> (false, false).
\<close>

theorem validate_email_domain_decision:
  assumes "email_domain_of rt email = Inr ed" and "extract_domain rt url = Inr ud"
    and "CHR ''@'' \<notin> set local_part" and "CHR ''@'' \<notin> set domain_part"
    and "h \<noteq> []" and "list_all host_char h"
  shows "validate_email_domain rt email url = Inr (domain_decision ed ud)
       \<and> email_domain_of rt (local_part @ ''@'' @ domain_part) = Inr (lower rt domain_part)
       \<and> extract_domain rt h = Inr (normalized_host h)
       \<and> extract_domain rt (''https://'' @ h) = Inr (normalized_host h)
       \<and> extract_domain rt (''http://'' @ h @ ''/'') = Inr (normalized_host h)
       \<and> validate_email_domain rt (local_part @ ''@'' @ domain_part) h =
           Inr (domain_decision (lower rt domain_part) (normalized_host h))
       \<and> validate_email_domain rt ''jane@gmail.com'' url = Inr (True, True)
       \<and> validate_email_domain rt ''ops@sub.acme.com'' ''acme.com'' = Inr (True, False)
       \<and> validate_email_domain rt ''ops@other.com'' ''acme.com'' = Inr (False, False)"
proof -
  have decide: "validate_email_domain rt e u = Inr (domain_decision d d')"
    if "email_domain_of rt e = Inr d" "extract_domain rt u = Inr d'" for e u d d'
    using that endswith_dot_iff_subdomain[of d' d] endswith_dot_iff_subdomain[of d d']
    by (simp add: validate_email_domain_def domain_decision_def)
  note address = email_domain_of_address[OF assms(3,4), of rt]
  note host = extract_domain_host[OF assms(5,6), of rt]
  have "email_domain_of rt ''jane@gmail.com'' = Inr ''gmail.com''"
    by code_simp
  then have gmail: "validate_email_domain rt ''jane@gmail.com'' url = Inr (True, True)"
    using assms(2) by (simp add: validate_email_domain_def generic_providers_def)
  have sub: "validate_email_domain rt ''ops@sub.acme.com'' ''acme.com'' = Inr (True, False)"
    by code_simp
  have other: "validate_email_domain rt ''ops@other.com'' ''acme.com'' = Inr (False, False)"
    by code_simp
  from decide[OF assms(1,2)] address host decide[OF address host(1)] gmail sub other
  show ?thesis by simp
qed

theorem validate_email_domain_decision_witness:
  "email_domain_of sample_runtime ''ops@Shop.Acme.com'' = Inr ''shop.acme.com''
   \<and> extract_domain sample_runtime ''http://www.acme.com/'' = Inr ''acme.com''
   \<and> normalized_host ''www.acme.com'' = ''acme.com''
   \<and> domain_decision ''shop.acme.com'' ''acme.com'' = (True, False)
   \<and> validate_email_domain sample_runtime ''ops@Shop.Acme.com'' ''http://www.acme.com/'' =
       Inr (True, False)
   \<and> validate_email_domain sample_runtime ''ops@Shop.Acme.com'' ''www.acme.com'' =
       Inr (True, False)"
proof -
  have e: "email_domain_of sample_runtime ''ops@Shop.Acme.com'' = Inr ''shop.acme.com''"
    by code_simp
  have u: "extract_domain sample_runtime ''http://www.acme.com/'' = Inr ''acme.com''"
    by code_simp
  have l: "CHR ''@'' \<notin> set ''ops''" "CHR ''@'' \<notin> set ''Shop.Acme.com''"
    by simp_all
  have h: "''www.acme.com'' \<noteq> []" "list_all host_char ''www.acme.com''"
    by (simp_all add: host_char_def)
  have n: "normalized_host ''www.acme.com'' = ''acme.com''"
    by code_simp
  have w: "lower sample_runtime ''Shop.Acme.com'' = ''shop.acme.com''"
    by code_simp
  have d: "domain_decision ''shop.acme.com'' ''acme.com'' = (True, False)"
    by code_simp
  from validate_email_domain_decision[OF e u l h] e u n w d show ?thesis by simp
qed

subsection \<open>Rate limiter\<close>

lemma check_live:
  assumes "rate_limit r ip = Some (c, e)" "t < e"
  shows "check_rate_limit (Some r) NoFault t ip =
     (if 10 \<le> c then (False, Some r)
      else (True, Some (r\<lparr>rate_limit := (rate_limit r)(ip \<mapsto> (c + 1, t + 3600))\<rparr>)))"
  using assms
  by (simp add: check_rate_limit_def rate_limit_try_def redis_get_count_def
      redis_incr_expire_def live_def)

lemma check_absent:
  assumes "live t (rate_limit r ip) = None"
  shows "check_rate_limit (Some r) NoFault t ip =
     (True, Some (r\<lparr>rate_limit := (rate_limit r)(ip \<mapsto> (1, t + 3600))\<rparr>))"
  using assms
  by (simp add: check_rate_limit_def rate_limit_try_def redis_get_count_def
      redis_incr_expire_def)

lemma check_rejected_unchanged:
  "check_rate_limit client fault t ip = (False, client') \<Longrightarrow> client' = client"
  by (auto simp: check_rate_limit_def rate_limit_try_def bind_exn_def
      split: option.splits sum.splits if_splits)

lemma check_fail_open:
  "rate_limit_try r fault t ip = Inl err \<Longrightarrow> fst (check_rate_limit (Some r) fault t ip)"
  by (simp add: check_rate_limit_def)

lemma check_no_store: "fst (check_rate_limit None fault t ip)"
  by (simp add: check_rate_limit_def)

lemma run_checks_live:
  assumes "rate_limit r ip = Some (c, e)" "T \<le> e" "\<forall>t\<in>set ts. t < T \<and> T \<le> t + 3600"
  shows "fst (run_checks r ip ts) = map (\<lambda>i. c + int i < 10) [0..<length ts]
       \<and> (\<exists>e'. rate_limit (snd (run_checks r ip ts)) ip
              = Some (max c (min (c + int (length ts)) 10), e') \<and> T \<le> e')"
  using assms
proof (induction ts arbitrary: r c e)
  case Nil
  then show ?case by auto
next
  case (Cons t ts)
  from Cons.prems have t: "t < e" "T \<le> t + 3600" by auto
  from Cons.prems have rest: "\<forall>t\<in>set ts. t < T \<and> T \<le> t + 3600" by simp
  have m: "map (\<lambda>i. c + int i < 10) [0..<length (t # ts)]
      = (c < 10) # map (\<lambda>i. c + 1 + int i < 10) [0..<length ts]"
    by (simp add: map_upt_Suc add.commute add.left_commute del: upt_Suc)
  show ?case
  proof (cases "10 \<le> c")
    case True
    with Cons.prems t have step: "check_rate_limit (Some r) NoFault t ip = (False, Some r)"
      by (simp add: check_live)
    from Cons.IH[OF Cons.prems(1,2) rest] obtain e' where
      ih: "fst (run_checks r ip ts) = map (\<lambda>i. c + int i < 10) [0..<length ts]"
      "rate_limit (snd (run_checks r ip ts)) ip = Some (max c (min (c + int (length ts)) 10), e')"
      "T \<le> e'"
      by blast
    have "(\<lambda>i. c + int i < 10) = (\<lambda>i. c + 1 + int i < 10)"
      using True by auto
    with ih(1) have f: "fst (run_checks r ip ts) = map (\<lambda>i. c + 1 + int i < 10) [0..<length ts]"
      by simp
    have run: "run_checks r ip (t # ts)
        = (False # fst (run_checks r ip ts), snd (run_checks r ip ts))"
      using step by (simp split: prod.splits)
    have cnt: "max c (min (c + int (length (t # ts))) 10) = max c (min (c + int (length ts)) 10)"
      using True by simp
    show ?thesis
      unfolding run m cnt using f ih(2,3) True by simp
  next
    case False
    let ?r' = "r\<lparr>rate_limit := (rate_limit r)(ip \<mapsto> (c + 1, t + 3600))\<rparr>"
    from False Cons.prems t have step: "check_rate_limit (Some r) NoFault t ip = (True, Some ?r')"
      by (simp add: check_live)
    have r': "rate_limit ?r' ip = Some (c + 1, t + 3600)" by simp
    from Cons.IH[OF r' t(2) rest] obtain e' where
      ih: "fst (run_checks ?r' ip ts) = map (\<lambda>i. c + 1 + int i < 10) [0..<length ts]"
      "rate_limit (snd (run_checks ?r' ip ts)) ip
         = Some (max (c + 1) (min (c + 1 + int (length ts)) 10), e')"
      "T \<le> e'"
      by blast
    have run: "run_checks r ip (t # ts)
        = (True # fst (run_checks ?r' ip ts), snd (run_checks ?r' ip ts))"
      using step by (simp split: prod.splits)
    have cnt: "max c (min (c + int (length (t # ts))) 10)
        = max (c + 1) (min (c + 1 + int (length ts)) 10)"
      using False by simp
    show ?thesis
      unfolding run m cnt using ih False by simp
  qed
qed

lemma run_checks_fresh:
  assumes fresh: "live t0 (rate_limit r ip) = None"
    and window: "\<forall>t\<in>set ts. t0 \<le> t \<and> t < t0 + 3600"
  shows "fst (run_checks r ip (t0 # ts)) = map (\<lambda>i. i < 10) [0..<Suc (length ts)]
       \<and> (\<exists>e'. rate_limit (snd (run_checks r ip (t0 # ts))) ip
              = Some (min (1 + int (length ts)) 10, e'))"
proof -
  let ?r' = "r\<lparr>rate_limit := (rate_limit r)(ip \<mapsto> (1, t0 + 3600))\<rparr>"
  have step: "check_rate_limit (Some r) NoFault t0 ip = (True, Some ?r')"
    using fresh by (rule check_absent)
  have r': "rate_limit ?r' ip = Some (1, t0 + 3600)" by simp
  from window have w: "\<forall>t\<in>set ts. t < t0 + 3600 \<and> t0 + 3600 \<le> t + 3600" by auto
  from run_checks_live[OF r' order_refl w]
  have ih: "fst (run_checks ?r' ip ts) = map (\<lambda>i. 1 + int i < 10) [0..<length ts]"
    "\<exists>e'. rate_limit (snd (run_checks ?r' ip ts)) ip = Some (min (1 + int (length ts)) 10, e')"
    by (auto simp: max_def min_def)
  have "map (\<lambda>i. i < 10) [0..<Suc (length ts)]
      = True # map (\<lambda>i. 1 + int i < 10) [0..<length ts]"
    by (simp add: map_upt_Suc del: upt_Suc)
  with step ih show ?thesis
    by (auto split: prod.splits simp del: upt_Suc)
qed

text \<open>
  Claim C8. With a working store, a run of checks from one IP inside one hour of the
  first (which finds no live counter) allows exactly the first ten: the check number
  \<open>i\<close> (from 0) is allowed iff \<open>i < 10\<close>, so the 10th returns true and the 11th
  false, and the stored count stops at 10. A rejected check returns the store as it
  was. With no store, or when a call to the store fails, the check returns true.
\<close>

theorem rate_limit_tenth_allowed_eleventh_rejected:
  assumes "live t0 (rate_limit r ip) = None"
    and "\<forall>t\<in>set ts. t0 \<le> t \<and> t < t0 + 3600"
  shows "fst (run_checks r ip (t0 # ts)) = map (\<lambda>i. i < 10) [0..<Suc (length ts)]
       \<and> (\<exists>e'. rate_limit (snd (run_checks r ip (t0 # ts))) ip
              = Some (min (1 + int (length ts)) 10, e'))
       \<and> (\<forall>client fault t a client'.
            check_rate_limit client fault t a = (False, client') \<longrightarrow> client' = client)
       \<and> (\<forall>fault t a. fst (check_rate_limit None fault t a))
       \<and> (\<forall>r' fault t a err.
            rate_limit_try r' fault t a = Inl err \<longrightarrow> fst (check_rate_limit (Some r') fault t a))"
proof -
  note run = run_checks_fresh[OF assms]
  have rej: "\<forall>client fault t a client'.
      check_rate_limit client fault t a = (False, client') \<longrightarrow> client' = client"
    using check_rejected_unchanged by blast
  have open1: "\<forall>fault t a. fst (check_rate_limit None fault t a)"
    using check_no_store by blast
  have open2: "\<forall>r' fault t a err.
      rate_limit_try r' fault t a = Inl err \<longrightarrow> fst (check_rate_limit (Some r') fault t a)"
    using check_fail_open by blast
  from run rej open1 open2 show ?thesis by blast
qed

theorem rate_limit_tenth_allowed_eleventh_rejected_witness:
  "live 0 (rate_limit empty_store ''203.0.113.7'') = None
   \<and> fst (run_checks empty_store ''203.0.113.7'' [0, 1, 2, 3, 4, 5, 6, 7, 8, 9, 3599])
       = [True, True, True, True, True, True, True, True, True, True, False]
   \<and> (\<exists>e'. rate_limit (snd (run_checks empty_store ''203.0.113.7''
                [0, 1, 2, 3, 4, 5, 6, 7, 8, 9, 3599])) ''203.0.113.7'' = Some (10, e'))
   \<and> rate_limit_try empty_store GetFails 5 ''203.0.113.7'' = Inl RedisError
   \<and> fst (check_rate_limit (Some empty_store) GetFails 5 ''203.0.113.7'')"
proof -
  have fresh: "live 0 (rate_limit empty_store ''203.0.113.7'') = None"
    by (simp add: live_def empty_store_def)
  have window: "\<forall>t\<in>set [1, 2, 3, 4, 5, 6, 7, 8, 9, 3599::nat]. 0 \<le> t \<and> t < 0 + 3600"
    by simp
  have m: "map (\<lambda>i. i < 10) [0..<Suc (length [1, 2, 3, 4, 5, 6, 7, 8, 9, 3599::nat])]
      = [True, True, True, True, True, True, True, True, True, True, False]"
    by code_simp
  have e: "rate_limit_try empty_store GetFails 5 ''203.0.113.7'' = Inl RedisError"
    by (simp add: rate_limit_try_def redis_get_count_def)
  note main = rate_limit_tenth_allowed_eleventh_rejected[OF fresh window]
  from main have a: "fst (run_checks empty_store ''203.0.113.7'' [0, 1, 2, 3, 4, 5, 6, 7, 8, 9, 3599])
       = [True, True, True, True, True, True, True, True, True, True, False]"
    unfolding m by blast
  from main have b: "\<exists>e'. rate_limit (snd (run_checks empty_store ''203.0.113.7''
                [0, 1, 2, 3, 4, 5, 6, 7, 8, 9, 3599])) ''203.0.113.7'' = Some (10, e')"
    by simp
  from main e have c: "fst (check_rate_limit (Some empty_store) GetFails 5 ''203.0.113.7'')"
    by blast
  from fresh a b e c show ?thesis by blast
qed

lemma check_allowed_sets_expiry:
  assumes "check_rate_limit (Some r) NoFault t ip = (True, Some r1)"
  shows "\<exists>c. rate_limit r1 ip = Some (c, t + 3600)"
  using assms
  by (auto simp: check_rate_limit_def rate_limit_try_def redis_get_count_def
      redis_incr_expire_def split: if_splits)

lemma run_checks_blocked:
  assumes "rate_limit r ip = Some (c, e)" "10 \<le> c" "\<forall>t\<in>set ts. t < e"
  shows "run_checks r ip ts = (replicate (length ts) False, r)"
  using assms by (induction ts) (simp_all add: check_live)

lemma check_blocked_iff:
  assumes "rate_limit r ip = Some (c, e)" "10 \<le> c"
  shows "fst (check_rate_limit (Some r) NoFault t ip) \<longleftrightarrow> e \<le> t"
  using assms
  by (simp add: check_rate_limit_def rate_limit_try_def redis_get_count_def
      redis_incr_expire_def live_def)

text \<open>
  Claim C10. With a working store, an allowed check at time \<open>t\<close> leaves the IP's
  counter expiring at \<open>t + 3600\<close>, whatever its expiry was before: the hour runs from
  the most recent allowed request. If that request brought the count to 10 or more,
  every later check before \<open>t + 3600\<close> is rejected and leaves the store (count and
  expiry) as it was, and a check is allowed again exactly from \<open>t + 3600\<close> on.
\<close>

theorem rate_limit_window_slides:
  assumes "check_rate_limit (Some r) NoFault t_last ip = (True, Some r1)"
  shows "(\<exists>c. rate_limit r1 ip = Some (c, t_last + 3600))
       \<and> (\<forall>c e. rate_limit r1 ip = Some (c, e) \<and> 10 \<le> c \<longrightarrow>
            (\<forall>ts. (\<forall>t\<in>set ts. t < t_last + 3600) \<longrightarrow>
               run_checks r1 ip ts = (replicate (length ts) False, r1))
          \<and> (\<forall>t. fst (check_rate_limit (Some r1) NoFault t ip) \<longleftrightarrow> t_last + 3600 \<le> t))"
proof -
  from check_allowed_sets_expiry[OF assms] obtain c0 where
    c0: "rate_limit r1 ip = Some (c0, t_last + 3600)" ..
  have "(\<forall>ts. (\<forall>t\<in>set ts. t < t_last + 3600) \<longrightarrow>
               run_checks r1 ip ts = (replicate (length ts) False, r1))
          \<and> (\<forall>t. fst (check_rate_limit (Some r1) NoFault t ip) \<longleftrightarrow> t_last + 3600 \<le> t)"
    if "rate_limit r1 ip = Some (c, e)" "10 \<le> c" for c e
  proof -
    from that c0 have e: "e = t_last + 3600" by simp
    from run_checks_blocked[OF that] check_blocked_iff[OF that] show ?thesis
      unfolding e by blast
  qed
  with c0 show ?thesis by blast
qed

theorem rate_limit_window_slides_witness:
  "check_rate_limit (Some nine_requests_store) NoFault 1000 ''203.0.113.7''
     = (True, Some ten_requests_store)
   \<and> rate_limit ten_requests_store ''203.0.113.7'' = Some (10, 4600)
   \<and> run_checks ten_requests_store ''203.0.113.7'' [2000, 4599]
       = ([False, False], ten_requests_store)
   \<and> \<not> fst (check_rate_limit (Some ten_requests_store) NoFault 4599 ''203.0.113.7'')
   \<and> fst (check_rate_limit (Some ten_requests_store) NoFault 4600 ''203.0.113.7'')"
proof -
  have step: "check_rate_limit (Some nine_requests_store) NoFault 1000 ''203.0.113.7''
     = (True, Some ten_requests_store)"
    by (simp add: check_rate_limit_def rate_limit_try_def redis_get_count_def
        redis_incr_expire_def live_def nine_requests_store_def ten_requests_store_def)
  have entry: "rate_limit ten_requests_store ''203.0.113.7'' = Some (10, 4600)"
    by (simp add: ten_requests_store_def)
  have times: "\<forall>t\<in>set [2000, 4599::nat]. t < 1000 + 3600" by simp
  note main = rate_limit_window_slides[OF step]
  from main entry times
  have a: "run_checks ten_requests_store ''203.0.113.7'' [2000, 4599]
       = (replicate (length [2000, 4599::nat]) False, ten_requests_store)"
    by blast
  from main entry
  have b: "\<forall>t. fst (check_rate_limit (Some ten_requests_store) NoFault t ''203.0.113.7'')
       \<longleftrightarrow> 1000 + 3600 \<le> t"
    by blast
  from step entry a b show ?thesis by simp
qed


subsection \<open>Profile synthesizer\<close>

lemma three_attempts: "[0..<3] = [0, 1, 2::nat]"
  by code_simp

lemma final_message_nonempty: "final_message e \<noteq> []"
  by (cases e) simp_all

lemma retry_third_attempt:
  assumes "anthropic_api_key \<noteq> []"
    and "try_body rt wd (api 0) = Inl e0"
    and "try_body rt wd (api 1) = Inl e1"
  shows "generate_profile rt anthropic_api_key api company_name wd 3 fresh_gen =
     (case try_body rt wd (api 2) of
        Inl e2 \<Rightarrow> Inr ((None, Some (final_message e2)), \<lparr>api_calls = 3, sleeps = [1, 4]\<rparr>)
      | Inr profile \<Rightarrow> Inr ((Some profile, None), \<lparr>api_calls = 3, sleeps = [1, 4]\<rparr>))"
proof -
  have two: "api 2 = api (Suc (Suc 0))" and one: "api 1 = api (Suc 0)"
    by (simp_all add: numeral_2_eq_2)
  show ?thesis
    using assms unfolding two one
    by (simp add: generate_profile_def three_attempts fresh_gen_def delays_def py_nth_def
        Let_def numeral_3_eq_3 split: sum.splits)
qed

text \<open>
  Claim C3. With the API key configured and the default \<^verbatim>\<open>max_retries = 3\<close>: if the
  first two attempts fail with a transient error (rate limit, API error, JSON parse
  error), then, when the third fails the same way, \<^verbatim>\<open>generate_profile\<close> returns no
  profile and the (non-empty) message of the third failure, and when the third succeeds
  it returns the profile and no error; in both cases after exactly 3 calls of the API
  and exactly the sleeps 1 and 4, none after the last attempt.
\<close>

theorem generate_profile_three_attempts:
  assumes "anthropic_api_key \<noteq> []"
    and "try_body rt wd (api 0) = Inl e0" and "is_transient e0"
    and "try_body rt wd (api 1) = Inl e1" and "is_transient e1"
  shows "(\<forall>e2. try_body rt wd (api 2) = Inl e2 \<and> is_transient e2 \<longrightarrow>
            generate_profile rt anthropic_api_key api company_name wd 3 fresh_gen
              = Inr ((None, Some (final_message e2)), \<lparr>api_calls = 3, sleeps = [1, 4]\<rparr>)
            \<and> final_message e2 \<noteq> [])
       \<and> (\<forall>profile. try_body rt wd (api 2) = Inr profile \<longrightarrow>
            generate_profile rt anthropic_api_key api company_name wd 3 fresh_gen
              = Inr ((Some profile, None), \<lparr>api_calls = 3, sleeps = [1, 4]\<rparr>))"
  using retry_third_attempt[OF assms(1,2,4), of company_name] final_message_nonempty
  by simp

lemma failing_api_bodies:
  "try_body sample_runtime unlisted_dataset (failing_api 0) = Inl RateLimitError"
  "try_body sample_runtime unlisted_dataset (failing_api 1) = Inl (APIError ''Overloaded'')"
  "try_body sample_runtime unlisted_dataset (failing_api 2)
     = Inl (JSONDecodeError ''Expecting value: line 1 column 1 (char 0)'')"
  by code_simp+

lemma recovering_api_bodies:
  "try_body sample_runtime unrated_dataset (recovering_api 0) = Inl RateLimitError"
  "try_body sample_runtime unrated_dataset (recovering_api 1) = Inl (APIError ''Overloaded'')"
  "try_body sample_runtime unrated_dataset (recovering_api 2) = Inr claimed_profile"
  by code_simp+

theorem generate_profile_three_attempts_witness:
  "generate_profile sample_runtime ''sk-key'' failing_api ''Acme'' unlisted_dataset 3 fresh_gen
     = Inr ((None, Some ''Failed to parse profile JSON: Expecting value: line 1 column 1 (char 0)''),
            \<lparr>api_calls = 3, sleeps = [1, 4]\<rparr>)
   \<and> generate_profile sample_runtime ''sk-key'' recovering_api ''Acme'' unrated_dataset 3 fresh_gen
     = Inr ((Some claimed_profile, None), \<lparr>api_calls = 3, sleeps = [1, 4]\<rparr>)"
proof -
  have key: "''sk-key'' \<noteq> []" by simp
  have t: "is_transient RateLimitError" "is_transient (APIError ''Overloaded'')"
    "is_transient (JSONDecodeError ''Expecting value: line 1 column 1 (char 0)'')"
    by (simp_all add: is_transient_def)
  from generate_profile_three_attempts[OF key failing_api_bodies(1) t(1) failing_api_bodies(2) t(2),
      of "''Acme''"] failing_api_bodies(3) t(3)
  have a: "generate_profile sample_runtime ''sk-key'' failing_api ''Acme'' unlisted_dataset 3 fresh_gen
     = Inr ((None, Some (final_message (JSONDecodeError ''Expecting value: line 1 column 1 (char 0)''))),
            \<lparr>api_calls = 3, sleeps = [1, 4]\<rparr>)"
    by blast
  from generate_profile_three_attempts[OF key recovering_api_bodies(1) t(1)
      recovering_api_bodies(2) t(2), of "''Acme''"] recovering_api_bodies(3)
  have b: "generate_profile sample_runtime ''sk-key'' recovering_api ''Acme'' unrated_dataset 3 fresh_gen
     = Inr ((Some claimed_profile, None), \<lparr>api_calls = 3, sleeps = [1, 4]\<rparr>)"
    by blast
  from a b show ?thesis by simp
qed






subsection \<open>Fan-out\<close>

lemma fan_out_eq:
  "fan_out run = PDict
     [(''site_scraper'', entry_of (run ''site_scraper'')),
      (''tech_detector'', entry_of (run ''tech_detector'')),
      (''dns_whois'', entry_of (run ''dns_whois'')),
      (''google_business'', entry_of (run ''google_business'')),
      (''job_scanner'', entry_of (run ''job_scanner''))]"
  by (simp add: fan_out_def organize_results_def gather_def provider_names_def)

text \<open>
  The dataset has the shape the scorer's theorem asks for whenever each provider
  returns or raises an \<^verbatim>\<open>Exception\<close>, and each that returns hands back a result
  dictionary of that shape.
\<close>

lemma entry_of_shape:
  "(\<And>v. out = Returned v \<Longrightarrow> result_shape v) \<Longrightarrow> (\<And>msg. out \<noteq> RaisedBase msg)
   \<Longrightarrow> result_shape (entry_of out)"
  by (cases out) (auto simp: result_shape_def)

lemma fan_out_shape:
  assumes "\<And>name v. run name = Returned v \<Longrightarrow> result_shape v"
    and "\<And>name msg. run name \<noteq> RaisedBase msg"
  shows "dataset_shape (fan_out run)"
proof -
  have r: "result_shape (entry_of (run name))" for name
    using assms by (intro entry_of_shape)
  from r[of "''site_scraper''"] r[of "''tech_detector''"] r[of "''dns_whois''"]
    r[of "''google_business''"] r[of "''job_scanner''"]
  show ?thesis
    by (simp add: dataset_shape_def fan_out_eq result_shape_def)
qed





















subsection \<open>Intake\<close>





subsection \<open>Cache hit\<close>

lemma latest_None: "latest xs = None \<longleftrightarrow> xs = []"
  by (cases xs) (auto split: option.splits)

lemma latest_Some:
  "latest xs = Some b \<Longrightarrow> b \<in> set xs \<and> (\<forall>s\<in>set xs. sub_created_at s \<le> sub_created_at b)"
proof (induction xs arbitrary: b)
  case Nil
  then show ?case by simp
next
  case (Cons s ss)
  show ?case
  proof (cases "latest ss")
    case None
    then have "ss = []" by (simp add: latest_None)
    with Cons.prems show ?thesis by simp
  next
    case (Some c)
    from Cons.IH[OF Some] Cons.prems Some show ?thesis
      by (auto split: if_splits)
  qed
qed

text \<open>What a cache hit is: the newest complete submission of that URL created less than 24 hours ago.\<close>

lemma get_submission_by_url_Some:
  assumes "get_submission_by_url d now url = Some cached"
  shows "cached \<in> set (submissions d) \<and> sub_company_url cached = url
       \<and> sub_status cached = Complete \<and> now < sub_created_at cached + 86400
       \<and> (\<forall>s\<in>set (submissions d).
            sub_company_url s = url \<and> sub_status s = Complete \<and> now < sub_created_at s + 86400
            \<longrightarrow> sub_created_at s \<le> sub_created_at cached)"
  using latest_Some[OF assms[unfolded get_submission_by_url_def]] by auto

lemma get_submission_by_url_None:
  "get_submission_by_url d now url = None \<longleftrightarrow>
     (\<forall>s\<in>set (submissions d).
        \<not> (sub_company_url s = url \<and> sub_status s = Complete \<and> now < sub_created_at s + 86400))"
  by (auto simp: get_submission_by_url_def latest_None filter_empty_conv)

lemma find_after_update:
  "find (\<lambda>s. sub_job_id s = j) (map (\<lambda>s. if sub_job_id s = j then f s else s) xs)
     = map_option f (find (\<lambda>s. sub_job_id s = j) xs)"
  if "\<And>s. sub_job_id (f s) = sub_job_id s"
  using that by (induction xs) auto

lemma current_after_completion:
  "get_submission_by_job_id (update_submission_status d job_id status (Some t)) job_id
     = map_option (\<lambda>s. s\<lparr>sub_status := status, sub_completed_at := Some t\<rparr>)
         (get_submission_by_job_id d job_id)"
  by (simp add: get_submission_by_job_id_def update_submission_status_def find_after_update)

lemma stored_confidence:
  "(case c of None \<Rightarrow> True | Some s \<Rightarrow> length s \<le> 50)
     \<Longrightarrow> storable_confidence (column_value c) = Inr c"
  by (cases c) (simp_all add: column_value_def)

lemma cache_miss_insufficient:
  assumes "get_submission_by_url (update_submission_status (db w) job_id Processing None) now
             (normalize_url (req_company_url submission)) = None"
    and "check_data_sufficiency (fan_out (env_providers env)) = Inr (False, sources)"
  shows "process_submission env now job_id auth_token submission w =
     w\<lparr>db := update_submission_status (update_submission_status (db w) job_id Processing None)
              job_id Insufficient_data (Some now),
       provider_calls := provider_calls w @ provider_names,
       emails := emails w @ [(InsufficientData, req_email submission)]\<rparr>"
  using assms
  by (simp add: process_submission_def process_body_def cached_branch_def full_pipeline_def
      Let_def)

text \<open>
  Claim C7, as stated, fails: the look-up asks for a complete submission
  \<^emph>\<open>created\<close> less than 24 hours ago, not one \<^emph>\<open>completed\<close> less than 24 hours ago.
  The first submission was created at 0 and completed at 60; at time 86430 its
  completion lies 86370 seconds back, inside the 24 hours, yet the second submission
  of the same URL misses the cache: all five providers are called and nothing is cloned.
\<close>

theorem completed_within_a_day_but_cache_miss:
  "sub_completed_at prior_submission = Some 60 \<and> sub_status prior_submission = Complete
   \<and> (86430::nat) < 60 + 86400
   \<and> sub_company_url prior_submission = normalize_url (req_company_url resubmission)
   \<and> get_profile_by_submission_id (db (resubmitted_world 86425)) (sub_id prior_submission)
       = Some prior_profile
   \<and> provider_calls (process_submission providers_down 86430 ''job-2'' ''token-2''
        resubmission (resubmitted_world 86425)) = provider_names
   \<and> profiles (db (process_submission providers_down 86430 ''job-2'' ''token-2''
        resubmission (resubmitted_world 86425))) = [prior_profile]"
proof -
  have url: "normalize_url (req_company_url resubmission) = ''https://acme.com''"
    unfolding resubmission_def by simp code_simp
  have d1: "update_submission_status (db (resubmitted_world 86425)) ''job-2'' Processing None
      = \<lparr>submissions = [prior_submission, (resubmission_row 86425)\<lparr>sub_status := Processing\<rparr>],
         profiles = [prior_profile]\<rparr>"
    by (simp add: update_submission_status_def resubmitted_world_def prior_submission_def
        resubmission_row_def)
  have miss: "get_submission_by_url
       (update_submission_status (db (resubmitted_world 86425)) ''job-2'' Processing None) 86430
       (normalize_url (req_company_url resubmission)) = None"
    unfolding d1 url
    by (simp add: get_submission_by_url_def prior_submission_def resubmission_row_def)
  have score: "check_data_sufficiency (fan_out (env_providers providers_down)) = Inr (False, [])"
    unfolding providers_down_def by simp code_simp
  note run = cache_miss_insufficient[OF miss score, of "''token-2''"]
  have prior: "sub_completed_at prior_submission = Some 60" "sub_status prior_submission = Complete"
    "sub_company_url prior_submission = normalize_url (req_company_url resubmission)"
    unfolding url by (simp_all add: prior_submission_def)
  have stored: "get_profile_by_submission_id (db (resubmitted_world 86425))
      (sub_id prior_submission) = Some prior_profile"
    by (simp add: get_profile_by_submission_id_def resubmitted_world_def prior_submission_def
        prior_profile_def)
  have calls: "provider_calls (process_submission providers_down 86430 ''job-2'' ''token-2''
        resubmission (resubmitted_world 86425)) = provider_names"
    unfolding run by (simp add: resubmitted_world_def)
  have profs: "profiles (db (process_submission providers_down 86430 ''job-2'' ''token-2''
        resubmission (resubmitted_world 86425))) = [prior_profile]"
    unfolding run by (simp add: update_submission_status_def resubmitted_world_def)
  from prior stored calls profs show ?thesis by simp
qed

text \<open>
  Claim C7, amended. When the background run starts (the new submission has just
  been marked processing), let the look-up by normalized URL find a submission, that is
  the newest complete submission of that URL created less than 24 hours ago, and let
  that submission have a stored profile. Then the run stores a new profile row for the
  new submission with the same payload, the same list of data sources and the same
  confidence score, sets the new submission to complete (with its completion time),
  sends the profile-ready email, and calls no provider and no synthesis: the logs of
  provider calls and of API calls and sleeps are as before.
\<close>

theorem cache_hit_clones_profile:
  assumes "d1 = update_submission_status (db w) job_id Processing None"
    and "get_submission_by_url d1 now (normalize_url (req_company_url submission)) = Some cached"
    and "get_profile_by_submission_id d1 (sub_id cached) = Some cached_profile"
    and "get_submission_by_job_id d1 job_id = Some current"
    and "case confidence_score cached_profile of None \<Rightarrow> True | Some s \<Rightarrow> length s \<le> 50"
    and "w' = process_submission env now job_id auth_token submission w"
  shows "provider_calls w' = provider_calls w \<and> gen w' = gen w
       \<and> profiles (db w') = profiles (db w) @
           [\<lparr>prof_id = Suc (length (profiles (db w))), prof_submission_id = sub_id current,
             profile_json = profile_json cached_profile,
             data_sources_used = data_sources_used cached_profile,
             confidence_score = confidence_score cached_profile, prof_created_at = now\<rparr>]
       \<and> get_submission_by_job_id (db w') job_id
           = Some (current\<lparr>sub_status := Complete, sub_completed_at := Some now\<rparr>)
       \<and> emails w' = emails w @ [(ProfileReady, req_email submission)]
       \<and> redis_client w' = redis_client w"
proof -
  let ?w1 = "w\<lparr>db := d1\<rparr>"
  let ?row = "\<lparr>prof_id = Suc (length (profiles (db w))), prof_submission_id = sub_id current,
             profile_json = profile_json cached_profile,
             data_sources_used = data_sources_used cached_profile,
             confidence_score = confidence_score cached_profile, prof_created_at = now\<rparr>"
  let ?d2 = "d1\<lparr>profiles := profiles d1 @ [?row]\<rparr>"
  have complete: "sub_status cached = Complete"
    using get_submission_by_url_Some[OF assms(2)] by simp
  have p1: "profiles d1 = profiles (db w)"
    by (simp add: assms(1) update_submission_status_def)
  have create: "create_profile d1 now (sub_id current) (profile_json cached_profile)
      (data_sources_used cached_profile) (column_value (confidence_score cached_profile))
      = Inr (Suc (length (profiles (db w))), ?d2)"
    by (simp add: create_profile_def stored_confidence[OF assms(5)] p1)
  have branch: "cached_branch now job_id submission
      (normalize_url (req_company_url submission)) ?w1
      = Some (None, ?w1\<lparr>db := update_submission_status ?d2 job_id Complete (Some now),
                         emails := emails ?w1 @ [(ProfileReady, req_email submission)]\<rparr>)"
    by (simp add: cached_branch_def assms(2,3,4) complete create)
  have w': "w' = ?w1\<lparr>db := update_submission_status ?d2 job_id Complete (Some now),
                     emails := emails ?w1 @ [(ProfileReady, req_email submission)]\<rparr>"
    unfolding assms(6) process_submission_def process_body_def
    using branch by (simp add: assms(1)[symmetric] Let_def)
  have cur: "get_submission_by_job_id ?d2 job_id = Some current"
    using assms(4) by (simp add: get_submission_by_job_id_def)
  have final: "get_submission_by_job_id (db w') job_id
      = Some (current\<lparr>sub_status := Complete, sub_completed_at := Some now\<rparr>)"
    unfolding w' by (simp add: current_after_completion cur)
  have profs: "profiles (db w') = profiles (db w) @ [?row]"
    unfolding w' by (simp add: update_submission_status_def p1)
  from final profs show ?thesis
    unfolding w' by simp
qed

theorem cache_hit_clones_profile_witness:
  "get_submission_by_url
       (update_submission_status (db (resubmitted_world 3590)) ''job-2'' Processing None) 3600
       (normalize_url (req_company_url resubmission)) = Some prior_submission
   \<and> provider_calls (process_submission providers_down 3600 ''job-2'' ''token-2''
        resubmission (resubmitted_world 3590)) = []
   \<and> gen (process_submission providers_down 3600 ''job-2'' ''token-2''
        resubmission (resubmitted_world 3590)) = fresh_gen
   \<and> profiles (db (process_submission providers_down 3600 ''job-2'' ''token-2''
        resubmission (resubmitted_world 3590)))
       = [prior_profile,
          \<lparr>prof_id = 2, prof_submission_id = 2, profile_json = claimed_profile,
           data_sources_used = [''Website Content'', ''Technology Stack'', ''DNS Records''],
           confidence_score = Some ''High'', prof_created_at = 3600\<rparr>]
   \<and> get_submission_by_job_id (db (process_submission providers_down 3600 ''job-2'' ''token-2''
        resubmission (resubmitted_world 3590))) ''job-2''
       = Some ((resubmission_row 3590)\<lparr>sub_status := Complete, sub_completed_at := Some 3600\<rparr>)"
proof -
  have url: "normalize_url (req_company_url resubmission) = ''https://acme.com''"
    unfolding resubmission_def by simp code_simp
  have d1: "update_submission_status (db (resubmitted_world 3590)) ''job-2'' Processing None
      = \<lparr>submissions = [prior_submission, (resubmission_row 3590)\<lparr>sub_status := Processing\<rparr>],
         profiles = [prior_profile]\<rparr>"
    by (simp add: update_submission_status_def resubmitted_world_def prior_submission_def
        resubmission_row_def)
  have hit: "get_submission_by_url
       (update_submission_status (db (resubmitted_world 3590)) ''job-2'' Processing None) 3600
       (normalize_url (req_company_url resubmission)) = Some prior_submission"
    unfolding d1 url
    by (simp add: get_submission_by_url_def prior_submission_def resubmission_row_def)
  have prof: "get_profile_by_submission_id
       (update_submission_status (db (resubmitted_world 3590)) ''job-2'' Processing None)
       (sub_id prior_submission) = Some prior_profile"
    unfolding d1
    by (simp add: get_profile_by_submission_id_def prior_submission_def prior_profile_def)
  have cur: "get_submission_by_job_id
       (update_submission_status (db (resubmitted_world 3590)) ''job-2'' Processing None) ''job-2''
       = Some ((resubmission_row 3590)\<lparr>sub_status := Processing\<rparr>)"
    unfolding d1
    by (simp add: get_submission_by_job_id_def prior_submission_def resubmission_row_def)
  have conf: "case confidence_score prior_profile of None \<Rightarrow> True | Some s \<Rightarrow> length s \<le> 50"
    by (simp add: prior_profile_def)
  note main = cache_hit_clones_profile[OF refl hit prof cur conf refl, of providers_down "''token-2''"]
  have w: "provider_calls (resubmitted_world 3590) = []" "gen (resubmitted_world 3590) = fresh_gen"
    "profiles (db (resubmitted_world 3590)) = [prior_profile]"
    by (simp_all add: resubmitted_world_def)
  have row: "sub_id ((resubmission_row 3590)\<lparr>sub_status := Processing\<rparr>) = 2"
    "profile_json prior_profile = claimed_profile"
    "data_sources_used prior_profile = [''Website Content'', ''Technology Stack'', ''DNS Records'']"
    "confidence_score prior_profile = Some ''High''"
    "(resubmission_row 3590)\<lparr>sub_status := Processing\<rparr>\<lparr>sub_status := Complete,
        sub_completed_at := Some 3600\<rparr>
      = (resubmission_row 3590)\<lparr>sub_status := Complete, sub_completed_at := Some 3600\<rparr>"
    by (simp_all add: resubmission_row_def prior_profile_def)
  from main hit show ?thesis
    unfolding w row by simp
qed


end
